theory Spec2Isabelle
  imports Main "HOL-Library.Word"
begin

unbundle bit_operations_syntax

section \<open>The directory editor mode of QEmacs (modes/dired.c)\<close>

text \<open>
  The embedding follows \<^verbatim>\<open>src/modes/dired.c\<close>. C \<^verbatim>\<open>int\<close> bit masks
  (\<^verbatim>\<open>sort_mode\<close>, \<^verbatim>\<open>flags\<close>, \<^verbatim>\<open>details_mask\<close>) and \<^verbatim>\<open>mode_t\<close> are 32-bit words; user,
  group, link and device numbers are words of their widths on Linux. Sizes, times, counters
  and column widths are \<^typ>\<open>int\<close>, the values of the signed C integers. Where the code
  narrows a value with a cast the cast is written out, and so is the wrap-around where a
  counter or a sum of sizes can leave the range of its type. A call that does not return,
  because the program stops in it, has the result \<open>None\<close>.
\<close>

subsection \<open>File modes (the values of sys/stat.h on Linux)\<close>

type_synonym mode_t = "32 word"

definition S_IFMT :: mode_t where "S_IFMT = 0xF000"
definition S_IFSOCK :: mode_t where "S_IFSOCK = 0xC000"
definition S_IFLNK :: mode_t where "S_IFLNK = 0xA000"
definition S_IFREG :: mode_t where "S_IFREG = 0x8000"
definition S_IFBLK :: mode_t where "S_IFBLK = 0x6000"
definition S_IFDIR :: mode_t where "S_IFDIR = 0x4000"
definition S_IFCHR :: mode_t where "S_IFCHR = 0x2000"
definition S_IFIFO :: mode_t where "S_IFIFO = 0x1000"

definition S_ISUID :: mode_t where "S_ISUID = 0x800"
definition S_ISGID :: mode_t where "S_ISGID = 0x400"
definition S_ISVTX :: mode_t where "S_ISVTX = 0x200"
definition S_IRUSR :: mode_t where "S_IRUSR = 0x100"
definition S_IWUSR :: mode_t where "S_IWUSR = 0x80"
definition S_IXUSR :: mode_t where "S_IXUSR = 0x40"
definition S_IRGRP :: mode_t where "S_IRGRP = 0x20"
definition S_IWGRP :: mode_t where "S_IWGRP = 0x10"
definition S_IXGRP :: mode_t where "S_IXGRP = 0x08"
definition S_IROTH :: mode_t where "S_IROTH = 0x04"
definition S_IWOTH :: mode_t where "S_IWOTH = 0x02"
definition S_IXOTH :: mode_t where "S_IXOTH = 0x01"
definition S_IEXEC :: mode_t where "S_IEXEC = S_IXUSR"

definition S_ISDIR :: "mode_t \<Rightarrow> bool" where
  "S_ISDIR m = (m AND S_IFMT = S_IFDIR)"
definition S_ISREG :: "mode_t \<Rightarrow> bool" where
  "S_ISREG m = (m AND S_IFMT = S_IFREG)"
definition S_ISLNK :: "mode_t \<Rightarrow> bool" where
  "S_ISLNK m = (m AND S_IFMT = S_IFLNK)"
definition S_ISBLK :: "mode_t \<Rightarrow> bool" where
  "S_ISBLK m = (m AND S_IFMT = S_IFBLK)"
definition S_ISCHR :: "mode_t \<Rightarrow> bool" where
  "S_ISCHR m = (m AND S_IFMT = S_IFCHR)"
definition S_ISFIFO :: "mode_t \<Rightarrow> bool" where
  "S_ISFIFO m = (m AND S_IFMT = S_IFIFO)"
definition S_ISSOCK :: "mode_t \<Rightarrow> bool" where
  "S_ISSOCK m = (m AND S_IFMT = S_IFSOCK)"

subsection \<open>Enumerations\<close>

type_synonym cint = "32 word"

definition DIRED_SORT_NAME :: cint where "DIRED_SORT_NAME = 1"
definition DIRED_SORT_EXTENSION :: cint where "DIRED_SORT_EXTENSION = 2"
definition DIRED_SORT_SIZE :: cint where "DIRED_SORT_SIZE = 4"
definition DIRED_SORT_DATE :: cint where "DIRED_SORT_DATE = 8"
definition DIRED_SORT_MASK :: cint where "DIRED_SORT_MASK = 1 + 2 + 4 + 8"
definition DIRED_SORT_GROUP :: cint where "DIRED_SORT_GROUP = 16"
definition DIRED_SORT_DESCENDING :: cint where "DIRED_SORT_DESCENDING = 32"

definition DIRED_UPDATE_SORT :: cint where "DIRED_UPDATE_SORT = 1"
definition DIRED_UPDATE_FILTER :: cint where "DIRED_UPDATE_FILTER = 2"
definition DIRED_UPDATE_COLUMNS :: cint where "DIRED_UPDATE_COLUMNS = 4"
definition DIRED_UPDATE_REBUILD :: cint where "DIRED_UPDATE_REBUILD = 8"
definition DIRED_UPDATE_ALL :: cint where "DIRED_UPDATE_ALL = 15"

text \<open>\<^verbatim>\<open>enum time_format\<close>: a C enumeration is an integer, and the setter receives an \<^verbatim>\<open>int\<close>.\<close>

definition TF_COMPACT :: int where "TF_COMPACT = 0"
definition TF_DOS :: int where "TF_DOS = 1"
definition TF_DOS_LONG :: int where "TF_DOS_LONG = 2"
definition TF_TOUCH :: int where "TF_TOUCH = 3"
definition TF_TOUCH_LONG :: int where "TF_TOUCH_LONG = 4"
definition TF_FULL :: int where "TF_FULL = 5"
definition TF_SECONDS :: int where "TF_SECONDS = 6"
definition TF_MAX :: int where "TF_MAX = TF_SECONDS"

definition DIRED_SHOW_BLOCKS :: cint where "DIRED_SHOW_BLOCKS = 0x01"
definition DIRED_SHOW_MODE :: cint where "DIRED_SHOW_MODE = 0x02"
definition DIRED_SHOW_LINKS :: cint where "DIRED_SHOW_LINKS = 0x04"
definition DIRED_SHOW_UID :: cint where "DIRED_SHOW_UID = 0x08"
definition DIRED_SHOW_GID :: cint where "DIRED_SHOW_GID = 0x10"
definition DIRED_SHOW_SIZE :: cint where "DIRED_SHOW_SIZE = 0x20"
definition DIRED_SHOW_DATE :: cint where "DIRED_SHOW_DATE = 0x40"
definition DIRED_SHOW_ALL :: cint where "DIRED_SHOW_ALL = 0x7F"

definition DIRED_DETAILS_AUTO :: int where "DIRED_DETAILS_AUTO = 0"
definition DIRED_DETAILS_HIDE :: int where "DIRED_DETAILS_HIDE = 1"
definition DIRED_DETAILS_SHOW :: int where "DIRED_DETAILS_SHOW = 2"

subsection \<open>Items and state\<close>

text \<open>
  \<^verbatim>\<open>struct DiredItem\<close>. The field \<open>addr\<close> stands for the address of the allocated item: the code
  compares item pointers (\<^verbatim>\<open>dip == cur_item\<close>), and an address is what such a comparison sees.
\<close>

record DiredItem =
  addr :: nat
  fullname :: string
  mode :: mode_t
  nlink :: "64 word"
  uid :: "32 word"
  gid :: "32 word"
  rdev :: "64 word"
  mtime :: int
  size :: int
  offset :: int
  hidden :: bool
  mark :: char
  name :: string

text \<open>\<^verbatim>\<open>StringItem\<close> of qe.h, as dired.c uses it: the string and the opaque pointer to the item.\<close>

record StringItem =
  str :: string
  opaque :: DiredItem

text \<open>The static variables of dired.c that hold the process-wide configuration.\<close>

record DiredGlobals =
  dired_curtime :: int
  dired_time_format :: int
  dired_show_dot_files :: int
  dired_show_ds_store :: int
  dired_nflag :: int
  dired_hflag :: int
  dired_sort_mode :: cint

record DiredState =
  items :: "StringItem list"
  time_format :: int
  show_dot_files :: int
  show_ds_store :: int
  hflag :: int
  nflag :: int
  details_flag :: int
  last_details_flag :: int
  sort_mode :: cint
  last_cur :: "nat option"
  total_bytes :: int
  ndirs :: int
  nfiles :: int
  ndirs_hidden :: int
  nfiles_hidden :: int
  blocksize :: int
  last_width :: int
  details_mask :: cint
  blockslen :: int
  modelen :: int
  linklen :: int
  uidlen :: int
  gidlen :: int
  sizelen :: int
  datelen :: int
  namelen :: int
  fnamecol :: int
  path :: string

subsection \<open>Helpers of qe.h\<close>

text \<open>
  Modelled from the spec: \<^verbatim>\<open>strequal\<close> is declared in qe.h, which is not among the sources; the
  spec says the name "exactly equals" the system artifact name.
\<close>

definition strequal :: "string \<Rightarrow> string \<Rightarrow> bool" where
  "strequal a b = (a = b)"

text \<open>
  Modelled from the spec: \<^verbatim>\<open>clamp_int\<close> and \<^verbatim>\<open>max_int\<close> are declared in qe.h; the spec says
  the name column is "clamped to between 16 and 40 characters".
\<close>

definition clamp_int :: "int \<Rightarrow> int \<Rightarrow> int \<Rightarrow> int" where
  "clamp_int a lo hi = (if a < lo then lo else if a > hi then hi else a)"

definition max_int :: "int \<Rightarrow> int \<Rightarrow> int" where
  "max_int a b = (if a > b then a else b)"

subsection \<open>Integer arithmetic of C\<close>

text \<open>
  The value of an \<^verbatim>\<open>int\<close> expression, and the cast \<^verbatim>\<open>(int)\<close> of a wider integer: the low 32
  bits, read as two's complement. The same for \<^verbatim>\<open>long long\<close> and \<^verbatim>\<open>long\<close> with 64 bits.
  An addition that leaves the range is undefined in C; the compiled code wraps around, and so
  does the model.
\<close>

definition c_int_cast :: "int \<Rightarrow> int" where
  "c_int_cast n = sint (word_of_int n :: 32 word)"

definition c_ll_cast :: "int \<Rightarrow> int" where
  "c_ll_cast n = sint (word_of_int n :: 64 word)"

subsection \<open>The filter: \<^verbatim>\<open>dired_filter_files\<close>\<close>

text \<open>\<^verbatim>\<open>*p == '.'\<close>: the first byte of the string; the terminator of an empty string is not a dot.\<close>

definition first_is_dot :: "string \<Rightarrow> bool" where
  "first_is_dot p = (case p of [] \<Rightarrow> False | c # _ \<Rightarrow> c = CHR ''.'')"

text \<open>The value of \<^verbatim>\<open>hidden\<close> that the loop body computes for one item.\<close>

definition filter_hidden :: "DiredGlobals \<Rightarrow> string \<Rightarrow> bool" where
  "filter_hidden g p =
     (if first_is_dot p then
        (if dired_show_dot_files g = 0
            \<or> (dired_show_ds_store g = 0 \<and> strequal p ''.DS_Store'')
         then True else False)
      else False)"

text \<open>
  One iteration of the loop: set \<^verbatim>\<open>dip->hidden\<close>, bump one counter. The four counters are
  \<^verbatim>\<open>int\<close>, the byte total is \<^verbatim>\<open>long long\<close> and the size of an item is \<^verbatim>\<open>off_t\<close>.
\<close>

definition filter_step :: "DiredGlobals \<Rightarrow> StringItem \<Rightarrow> DiredState \<Rightarrow> StringItem \<times> DiredState" where
  "filter_step g it ds =
     (let dip = opaque it;
          h = filter_hidden g (str it);
          it' = it\<lparr>opaque := dip\<lparr>hidden := h\<rparr>\<rparr>
      in if h then
           (if S_ISDIR (mode dip)
            then (it', ds\<lparr>ndirs_hidden := c_int_cast (ndirs_hidden ds + 1)\<rparr>)
            else (it', ds\<lparr>nfiles_hidden := c_int_cast (nfiles_hidden ds + 1)\<rparr>))
         else
           (if S_ISDIR (mode dip) then (it', ds\<lparr>ndirs := c_int_cast (ndirs ds + 1)\<rparr>)
            else (it', ds\<lparr>nfiles := c_int_cast (nfiles ds + 1),
                           total_bytes := c_ll_cast (total_bytes ds + size dip)\<rparr>)))"

text \<open>The loop over \<^verbatim>\<open>ds->items\<close>, from the first item on; the counters live in the state.\<close>

fun filter_loop :: "DiredGlobals \<Rightarrow> StringItem list \<Rightarrow> DiredState \<Rightarrow> StringItem list \<times> DiredState" where
  "filter_loop g [] ds = ([], ds)"
| "filter_loop g (it # rest) ds =
     (let (it', ds') = filter_step g it ds;
          (rest', ds'') = filter_loop g rest ds'
      in (it' # rest', ds''))"

definition dired_filter_files :: "DiredGlobals \<Rightarrow> DiredState \<Rightarrow> DiredState" where
  "dired_filter_files g ds =
     (let ds0 = ds\<lparr>show_dot_files := dired_show_dot_files g,
                    show_ds_store := dired_show_ds_store g,
                    total_bytes := 0,
                    ndirs := 0, nfiles := 0,
                    ndirs_hidden := 0, nfiles_hidden := 0\<rparr>;
          (its, ds1) = filter_loop g (items ds0) ds0
      in ds1\<lparr>items := its\<rparr>)"

subsection \<open>The text buffer and the window\<close>

text \<open>
  The four styles that dired.c uses; \<^verbatim>\<open>DIRED_STYLE_NORMAL\<close> and the others are names for
  them.
\<close>

datatype QEStyle = QE_STYLE_DEFAULT | QE_STYLE_STRING | QE_STYLE_COMMENT | QE_STYLE_FUNCTION

definition DIRED_STYLE_NORMAL :: QEStyle where "DIRED_STYLE_NORMAL = QE_STYLE_DEFAULT"
definition DIRED_STYLE_HEADER :: QEStyle where "DIRED_STYLE_HEADER = QE_STYLE_STRING"
definition DIRED_STYLE_DIRECTORY :: QEStyle where "DIRED_STYLE_DIRECTORY = QE_STYLE_COMMENT"
definition DIRED_STYLE_FILENAME :: QEStyle where "DIRED_STYLE_FILENAME = QE_STYLE_FUNCTION"

definition DIRED_HEADER :: int where "DIRED_HEADER = 2"

text \<open>
  \<^verbatim>\<open>EditBuffer\<close> and \<^verbatim>\<open>EditState\<close> of qe.h, the fields that dired.c reads or writes: the
  styled text, the current style, the insertion offset \<^verbatim>\<open>b->offset\<close>, the modification mark
  and the flags of the buffer; the width, the cursor offset and the offset of the top line of
  the window.
\<close>

record EditBuffer =
  b_text :: "(QEStyle \<times> char) list"
  cur_style :: QEStyle
  b_offset :: int
  modified :: int
  b_flags :: cint

record EditState =
  es_width :: int
  es_offset :: int
  es_offset_top :: int

subsection \<open>What dired.c takes from libc and from the rest of QEmacs\<close>

text \<open>\<^verbatim>\<open>struct tm\<close>, the fields that \<^verbatim>\<open>format_date\<close> reads.\<close>

record tm =
  tm_sec :: int
  tm_min :: int
  tm_hour :: int
  tm_mday :: int
  tm_mon :: int
  tm_year :: int

text \<open>
  Functions that dired.c calls and that are not among the sources are parameters of the model,
  collected in one record: the collation and the extension of \<^verbatim>\<open>util.c\<close>, the sort routine,
  the string comparison \<^verbatim>\<open>strxcmp\<close>, the user and group databases (the name when an
  entry with a name is found), \<^verbatim>\<open>localtime\<close> (the broken-down time when the conversion
  succeeds), \<^verbatim>\<open>time\<close>, \<^verbatim>\<open>readlink\<close> (the target
  when it can be read), the glyph width of the window's screen, the conversions between offsets
  and line and column positions of a buffer (\<^verbatim>\<open>eb_get_pos\<close> gives the line and the column),
  the list position of the window, and two constants of qe.h.
\<close>

record Host =
  qe_strcollate :: "string \<Rightarrow> string \<Rightarrow> int"
  get_extension :: "string \<Rightarrow> string"
  qe_qsort_r :: "(StringItem \<Rightarrow> StringItem \<Rightarrow> int) \<Rightarrow> StringItem list \<Rightarrow> StringItem list"
  strxcmp :: "string \<Rightarrow> string \<Rightarrow> int"
  getpwuid :: "32 word \<Rightarrow> string option"
  getgrgid :: "32 word \<Rightarrow> string option"
  localtime :: "int \<Rightarrow> tm option"
  time_now :: int
  readlink :: "string \<Rightarrow> string option"
  get_glyph_width :: "EditState \<Rightarrow> int"
  eb_get_pos :: "EditBuffer \<Rightarrow> int \<Rightarrow> int \<times> int"
  eb_goto_pos :: "EditBuffer \<Rightarrow> int \<Rightarrow> int \<Rightarrow> int"
  list_get_pos :: "EditBuffer \<Rightarrow> EditState \<Rightarrow> int"
  MAX_FILENAME_SIZE :: int
  BF_READONLY :: cint

subsection \<open>The comparator: \<^verbatim>\<open>dired_sort_func\<close>\<close>

text \<open>
  The body of the \<^verbatim>\<open>for (;;)\<close> block: each \<^verbatim>\<open>break\<close> leaves with the value of \<^verbatim>\<open>res\<close>.
\<close>

definition sort_keys :: "Host \<Rightarrow> cint \<Rightarrow> DiredItem \<Rightarrow> DiredItem \<Rightarrow> int" where
  "sort_keys h sm dip1 dip2 =
     (if sm AND DIRED_SORT_DATE \<noteq> 0 \<and> mtime dip1 \<noteq> mtime dip2 then
        (if mtime dip1 < mtime dip2 then - 1 else 1)
      else if sm AND DIRED_SORT_SIZE \<noteq> 0 \<and> size dip1 \<noteq> size dip2 then
        (if size dip1 < size dip2 then - 1 else 1)
      else if sm AND DIRED_SORT_EXTENSION \<noteq> 0
              \<and> qe_strcollate h (get_extension h (name dip1)) (get_extension h (name dip2)) \<noteq> 0 then
        qe_strcollate h (get_extension h (name dip1)) (get_extension h (name dip2))
      else qe_strcollate h (name dip1) (name dip2))"

definition dired_sort_func :: "Host \<Rightarrow> DiredState \<Rightarrow> StringItem \<Rightarrow> StringItem \<Rightarrow> int" where
  "dired_sort_func h ds item1 item2 =
     (let dip1 = opaque item1;
          dip2 = opaque item2;
          sm = sort_mode ds;
          is_dir1 = (if S_ISDIR (mode dip1) then 1 else 0 :: int);
          is_dir2 = (if S_ISDIR (mode dip2) then 1 else 0 :: int)
      in if sm AND DIRED_SORT_GROUP \<noteq> 0 \<and> is_dir1 \<noteq> is_dir2 then is_dir2 - is_dir1
         else
           (let res = sort_keys h sm dip1 dip2
            in if sm AND DIRED_SORT_DESCENDING \<noteq> 0 then - res else res))"

subsection \<open>Printing numbers\<close>

text \<open>\<^verbatim>\<open>'0' + d\<close> for a digit \<open>d\<close> from 0 to 9; the code never reaches it with another value.\<close>

definition digit_char :: "int \<Rightarrow> char" where
  "digit_char d = ''0123456789'' ! nat d"

fun digits_of_nat :: "nat \<Rightarrow> string" where
  "digits_of_nat n =
     (if n < 10 then [digit_char (int n)]
      else digits_of_nat (n div 10) @ [digit_char (int (n mod 10))])"

declare digits_of_nat.simps [simp del]

text \<open>\<^verbatim>\<open>%d\<close>, \<^verbatim>\<open>%ld\<close> and \<^verbatim>\<open>%lld\<close> of printf.\<close>

definition show_int :: "int \<Rightarrow> string" where
  "show_int n = (if n < 0 then CHR ''-'' # digits_of_nat (nat (- n)) else digits_of_nat (nat n))"

text \<open>
  \<^verbatim>\<open>snprintf(buf, size, ...)\<close> for the formatted text \<open>s\<close>: the buffer receives at most
  \<open>size - 1\<close> characters, the result is the length of the whole text.
\<close>

definition snprintf_out :: "int \<Rightarrow> string \<Rightarrow> string \<times> int" where
  "snprintf_out sz s = (take (nat (sz - 1)) s, int (length s))"

text \<open>C division and remainder truncate towards zero.\<close>

definition c_div :: "int \<Rightarrow> int \<Rightarrow> int" where
  "c_div a b = sgn a * sgn b * (\<bar>a\<bar> div \<bar>b\<bar>)"

definition c_mod :: "int \<Rightarrow> int \<Rightarrow> int" where
  "c_mod a b = a - b * c_div a b"

subsection \<open>The size formatter: \<^verbatim>\<open>format_number\<close>\<close>

text \<open>
  The two \<^verbatim>\<open>while\<close> loops. The list is what \<^verbatim>\<open>suffix\<close> points to, so \<^verbatim>\<open>suffix[1]\<close> is
  non-zero when the list has a second character and \<^verbatim>\<open>suffix++\<close> drops the first one. The
  branch that writes \<^verbatim>\<open>buf[0]\<close> to \<^verbatim>\<open>buf[4]\<close> does not look at the buffer size. The loops
  start from a nine-character string, so the list is never empty; the last equation is there
  for totality.
\<close>

fun format_metric :: "int \<Rightarrow> string \<Rightarrow> int \<Rightarrow> string \<times> int" where
  "format_metric sz (c # d # rest) number =
     (if number \<ge> 1000 then
        (if number < 10000 then
           ([digit_char (c_div number 1000), CHR ''.'',
             digit_char (c_mod (c_div number 100) 10), d], 4)
         else format_metric sz (d # rest) (c_div number 1000))
      else snprintf_out sz (show_int (c_int_cast number) @ [c]))"
| "format_metric sz [c] number = snprintf_out sz (show_int (c_int_cast number) @ [c])"
| "format_metric sz [] number = snprintf_out sz (show_int (c_int_cast number))"

fun format_geek :: "int \<Rightarrow> string \<Rightarrow> int \<Rightarrow> string \<times> int" where
  "format_geek sz (c # d # rest) number =
     (if number \<ge> 1000 then
        (if number < 10200 then
           ([digit_char (c_div number 1020), CHR ''.'',
             digit_char (c_mod (c_div number 102) 10), d], 4)
         else format_geek sz (d # rest) (drop_bit 10 number))
      else snprintf_out sz (show_int (c_int_cast number) @ [c]))"
| "format_geek sz [c] number = snprintf_out sz (show_int (c_int_cast number) @ [c])"
| "format_geek sz [] number = snprintf_out sz (show_int (c_int_cast number))"

text \<open>
  \<open>human = 0\<close> prints the exact count; \<open>human > 1\<close> takes the metric branch (powers of 1000,
  suffixes \<^verbatim>\<open>BkMGTPEZY\<close>); every other value takes the branch of powers of 1024 (suffixes
  \<^verbatim>\<open>BKMGTPEZY\<close>).
\<close>

definition format_number :: "int \<Rightarrow> int \<Rightarrow> int \<Rightarrow> string \<times> int" where
  "format_number sz human number =
     (if human = 0 then snprintf_out sz (show_int number)
      else if human > 1 then format_metric sz ''BkMGTPEZY'' number
      else format_geek sz ''BKMGTPEZY'' number)"

subsection \<open>The permission string: \<^verbatim>\<open>compute_attr\<close>\<close>

text \<open>\<^verbatim>\<open>if (c) atts[i] = ch;\<close>\<close>

definition put_if :: "bool \<Rightarrow> nat \<Rightarrow> char \<Rightarrow> string \<Rightarrow> string" where
  "put_if c i ch atts = (if c then atts[i := ch] else atts)"

definition compute_attr :: "mode_t \<Rightarrow> string" where
  "compute_attr m =
     (let atts = ''----------'';
          atts = (if \<not> S_ISREG m then
                    (let atts = put_if (S_ISDIR m) 0 (CHR ''d'') atts;
                         atts = put_if (S_ISBLK m) 0 (CHR ''b'') atts;
                         atts = put_if (S_ISCHR m) 0 (CHR ''c'') atts;
                         atts = put_if (S_ISFIFO m) 0 (CHR ''p'') atts;
                         atts = put_if (S_ISSOCK m) 0 (CHR ''s'') atts;
                         atts = put_if (S_ISLNK m) 0 (CHR ''l'') atts
                     in atts)
                  else atts);
          atts = put_if (m AND S_IRUSR \<noteq> 0) 1 (CHR ''r'') atts;
          atts = put_if (m AND S_IWUSR \<noteq> 0) 2 (CHR ''w'') atts;
          atts = put_if (m AND S_IXUSR \<noteq> 0) 3 (CHR ''x'') atts;
          atts = put_if (m AND S_ISUID \<noteq> 0) 3
                   (if m AND S_IXUSR \<noteq> 0 then CHR ''s'' else CHR ''S'') atts;
          atts = put_if (m AND S_IRGRP \<noteq> 0) 4 (CHR ''r'') atts;
          atts = put_if (m AND S_IWGRP \<noteq> 0) 5 (CHR ''w'') atts;
          atts = put_if (m AND S_IXGRP \<noteq> 0) 6 (CHR ''x'') atts;
          atts = put_if (m AND S_ISGID \<noteq> 0) 6
                   (if m AND S_IXGRP \<noteq> 0 then CHR ''s'' else CHR ''S'') atts;
          atts = put_if (m AND S_IROTH \<noteq> 0) 7 (CHR ''r'') atts;
          atts = put_if (m AND S_IWOTH \<noteq> 0) 8 (CHR ''w'') atts;
          atts = put_if (m AND S_IXOTH \<noteq> 0) 9 (CHR ''x'') atts;
          atts = put_if (m AND S_ISVTX \<noteq> 0) 6
                   (if m AND S_IXOTH \<noteq> 0 then CHR ''t'' else CHR ''T'') atts
      in atts)"

subsection \<open>Owner, group, size and date\<close>

text \<open>\<^verbatim>\<open>%Nd\<close> and \<^verbatim>\<open>%0Nd\<close> of printf: padding on the left, zeros after the sign.\<close>

definition pad_left :: "int \<Rightarrow> char \<Rightarrow> string \<Rightarrow> string" where
  "pad_left w ch s = replicate (nat w - length s) ch @ s"

definition pad_right :: "int \<Rightarrow> string \<Rightarrow> string" where
  "pad_right w s = s @ replicate (nat w - length s) (CHR '' '')"

definition printf_d :: "int \<Rightarrow> int \<Rightarrow> string" where
  "printf_d w n = pad_left w (CHR '' '') (show_int n)"

definition printf_0d :: "int \<Rightarrow> int \<Rightarrow> string" where
  "printf_0d w n =
     (if n < 0 then CHR ''-'' # pad_left (w - 1) (CHR ''0'') (digits_of_nat (nat (- n)))
      else pad_left w (CHR ''0'') (digits_of_nat (nat n)))"

definition format_gid :: "Host \<Rightarrow> int \<Rightarrow> int \<Rightarrow> 32 word \<Rightarrow> string \<times> int" where
  "format_gid h sz nfl g =
     (case (if nfl = 0 then getgrgid h g else None) of
        Some gr_name \<Rightarrow> snprintf_out sz gr_name
      | None \<Rightarrow> snprintf_out sz (show_int (sint g)))"

definition format_uid :: "Host \<Rightarrow> int \<Rightarrow> int \<Rightarrow> 32 word \<Rightarrow> string \<times> int" where
  "format_uid h sz nfl u =
     (case (if nfl = 0 then getpwuid h u else None) of
        Some pw_name \<Rightarrow> snprintf_out sz pw_name
      | None \<Rightarrow> snprintf_out sz (show_int (sint u)))"

text \<open>\<^verbatim>\<open>dev_t\<close> has eight bytes here, so the split is at bit 24.\<close>

definition format_size :: "int \<Rightarrow> int \<Rightarrow> mode_t \<Rightarrow> 64 word \<Rightarrow> int \<Rightarrow> string \<times> int" where
  "format_size sz human st_mode st_rdev st_size =
     (if S_ISCHR st_mode \<or> S_ISBLK st_mode then
        (let major = sint (ucast (drop_bit 24 st_rdev) :: 32 word);
             minor = sint (ucast (st_rdev AND 0xffffff) :: 32 word)
         in snprintf_out sz (printf_d 3 major @ '', '' @ printf_d 3 minor))
      else format_number sz human st_size)"

definition month :: "string list" where
  "month = [''***'', ''Jan'', ''Feb'', ''Mar'', ''Apr'', ''May'', ''Jun'',
            ''Jul'', ''Aug'', ''Sep'', ''Oct'', ''Nov'', ''Dec'']"

text \<open>
  \<^verbatim>\<open>format_date\<close>. The output buffer type \<^verbatim>\<open>buf_t\<close> of qe.h is not among the sources; the
  model keeps the first \<open>size - 1\<close> characters in \<^verbatim>\<open>dest\<close> (\<^verbatim>\<open>out->len\<close> of them) and
  returns the length of the whole text (\<^verbatim>\<open>out->pos\<close>), as \<^verbatim>\<open>snprintf\<close> does. \<open>format_tm\<close>
  is the function from the broken-down time \<^verbatim>\<open>systm\<close> on.
\<close>

definition format_tm :: "DiredGlobals \<Rightarrow> int \<Rightarrow> int \<Rightarrow> tm \<Rightarrow> int \<Rightarrow> string \<times> int" where
  "format_tm g sz systime systm tf =
     (let fmonth = tm_mon systm + 1;
          fmonth = (if fmonth \<le> 0 \<or> fmonth > 12 then 0 else fmonth);
          out =
            (if tf = TF_TOUCH \<or> tf = TF_TOUCH_LONG then
               printf_0d 2 (c_mod (tm_year systm) 100) @ printf_0d 2 fmonth
               @ printf_0d 2 (tm_mday systm) @ printf_0d 2 (tm_hour systm)
               @ printf_0d 2 (tm_min systm)
               @ (if tf = TF_TOUCH_LONG then ''.'' @ printf_0d 2 (tm_sec systm) else [])
             else if tf = TF_DOS \<or> tf = TF_DOS_LONG then
               month ! nat fmonth @ '' '' @ printf_d 2 (tm_mday systm) @ '' ''
               @ printf_d 4 (tm_year systm + 1900) @ ''  '' @ printf_d 2 (tm_hour systm)
               @ '':'' @ printf_0d 2 (tm_min systm)
               @ (if tf = TF_DOS_LONG then '':'' @ printf_0d 2 (tm_sec systm) else [])
             else if tf = TF_FULL then
               month ! nat fmonth @ '' '' @ printf_d 2 (tm_mday systm) @ '' ''
               @ printf_0d 2 (tm_hour systm) @ '':'' @ printf_0d 2 (tm_min systm) @ '':''
               @ printf_0d 2 (tm_sec systm) @ '' '' @ printf_d 4 (tm_year systm + 1900)
             else if tf = TF_SECONDS then
               printf_d 10 (systime mod 2 ^ 64)
             else if systime > dired_curtime g - 182 * 86400
                   \<and> systime < dired_curtime g + 182 * 86400 then
               month ! nat fmonth @ '' '' @ printf_d 2 (tm_mday systm) @ '' ''
               @ printf_0d 2 (tm_hour systm) @ '':'' @ printf_0d 2 (tm_min systm)
             else
               month ! nat fmonth @ '' '' @ printf_d 2 (tm_mday systm) @ ''  ''
               @ printf_d 4 (tm_year systm + 1900));
          dest = take (nat (sz - 1)) out
      in (if fmonth = 0 then replicate (length dest) (CHR '' '') else dest, int (length out)))"

text \<open>
  \<^verbatim>\<open>systm = *localtime(&systime)\<close> reads through the pointer that \<^verbatim>\<open>localtime\<close> returns
  without a test (the source notes ``Should test for valid conversion''). \<^verbatim>\<open>localtime\<close>
  returns \<^verbatim>\<open>NULL\<close> for a time whose year does not fit; the program stops there, and the
  model has no result: \<open>None\<close>.
\<close>

definition format_date :: "Host \<Rightarrow> DiredGlobals \<Rightarrow> int \<Rightarrow> int \<Rightarrow> int \<Rightarrow> (string \<times> int) option" where
  "format_date h g sz systime tf =
     (case localtime h systime of
        None \<Rightarrow> None
      | Some systm \<Rightarrow> Some (format_tm g sz systime systm tf))"

subsection \<open>Column measurement: \<^verbatim>\<open>dired_compute_columns\<close>\<close>

text \<open>
  The number of blocks of an item, as both the measurement and the row compute it:
  \<^verbatim>\<open>(long)(((long long)dip->size + ds->blocksize - 1) / ds->blocksize)\<close>. The division
  stops the program when the block size is 0 and when the quotient is out of range (the least
  \<^verbatim>\<open>long long\<close> divided by -1): \<open>None\<close>.
\<close>

definition item_blocks :: "DiredState \<Rightarrow> DiredItem \<Rightarrow> int option" where
  "item_blocks ds dip =
     (let n = c_ll_cast (c_ll_cast (size dip + blocksize ds) - 1)
      in if blocksize ds = 0 \<or> (n = - (2 ^ 63) \<and> blocksize ds = - 1) then None
         else Some (c_div n (blocksize ds)))"

text \<open>\<^verbatim>\<open>if (cur < len) cur = len;\<close> gives the field the value \<open>raise_to cur len\<close>.\<close>

definition raise_to :: "int \<Rightarrow> int \<Rightarrow> int" where
  "raise_to cur len = (if cur < len then len else cur)"

text \<open>
  The body of the loop for one item. The name is measured first; in the hidden detail mode the
  \<^verbatim>\<open>continue\<close> skips the rest. Each other field is raised to the length of its own text, which
  depends on the item and on fields that the loop does not change. The body has no result when
  the block count or the date has none.
\<close>

definition columns_step :: "Host \<Rightarrow> DiredGlobals \<Rightarrow> StringItem \<Rightarrow> DiredState \<Rightarrow> DiredState option" where
  "columns_step h g it ds =
     (let dip = opaque it;
          ds = ds\<lparr>namelen := raise_to (namelen ds) (int (length (name dip)))\<rparr>
      in if details_flag ds = DIRED_DETAILS_HIDE then Some ds
         else
           (case item_blocks ds dip of
              None \<Rightarrow> None
            | Some blocks \<Rightarrow>
                (case format_date h g 32 (mtime dip) (dired_time_format g) of
                   None \<Rightarrow> None
                 | Some date \<Rightarrow>
                     Some (ds\<lparr>blockslen :=
                                 raise_to (blockslen ds) (snd (snprintf_out 32 (show_int blocks))),
                              modelen := 10,
                              linklen :=
                                 raise_to (linklen ds)
                                   (snd (snprintf_out 32 (show_int (c_int_cast (uint (nlink dip)))))),
                              uidlen :=
                                 raise_to (uidlen ds) (snd (format_uid h 32 (nflag ds) (uid dip))),
                              gidlen :=
                                 raise_to (gidlen ds) (snd (format_gid h 32 (nflag ds) (gid dip))),
                              sizelen :=
                                 raise_to (sizelen ds)
                                   (snd (format_size 32 (hflag ds) (mode dip) (rdev dip) (size dip))),
                              datelen := raise_to (datelen ds) (snd date)\<rparr>))))"

text \<open>The loop over \<^verbatim>\<open>ds->items\<close>; it stops with the first item whose body has no result.\<close>

fun columns_loop :: "Host \<Rightarrow> DiredGlobals \<Rightarrow> StringItem list \<Rightarrow> DiredState \<Rightarrow> DiredState option" where
  "columns_loop h g [] ds = Some ds"
| "columns_loop h g (it # rest) ds =
     (case columns_step h g it ds of
        None \<Rightarrow> None
      | Some ds' \<Rightarrow> columns_loop h g rest ds')"

definition dired_compute_columns :: "Host \<Rightarrow> DiredGlobals \<Rightarrow> DiredState \<Rightarrow> (DiredGlobals \<times> DiredState) option" where
  "dired_compute_columns h g ds =
     (let g = g\<lparr>dired_curtime := time_now h\<rparr>;
          ds = ds\<lparr>time_format := dired_time_format g,
                  hflag := dired_hflag g,
                  nflag := dired_nflag g,
                  blockslen := 0, modelen := 0, linklen := 0,
                  uidlen := 0, gidlen := 0,
                  sizelen := 0, datelen := 0, namelen := 0\<rparr>
      in map_option (Pair g) (columns_loop h g (items ds) ds))"

subsection \<open>Column layout: the detail mask of \<^verbatim>\<open>dired_update_buffer\<close>\<close>

text \<open>
  The automatic branch: \<^verbatim>\<open>if ((width -= len + sep) < 0) mask ^= BIT;\<close> for each column in
  turn (\<open>msk\<close> is \<^verbatim>\<open>ds->details_mask\<close>). With \<^verbatim>\<open>nflag == 2\<close> the left operand of
  \<^verbatim>\<open>||\<close> decides, and the subtraction is not evaluated.
\<close>

definition details_auto :: "DiredState \<Rightarrow> int \<Rightarrow> cint \<Rightarrow> cint" where
  "details_auto ds width msk =
     (let width = width - (sizelen ds + 2);
          msk = (if width < 0 then msk XOR DIRED_SHOW_SIZE else msk);
          width = width - (datelen ds + 2);
          msk = (if width < 0 then msk XOR DIRED_SHOW_DATE else msk);
          width = width - (modelen ds + 1);
          msk = (if width < 0 then msk XOR DIRED_SHOW_MODE else msk);
          width = (if nflag ds = 2 then width else width - (uidlen ds + 1));
          msk = (if nflag ds = 2 \<or> width < 0 then msk XOR DIRED_SHOW_UID else msk);
          width = (if nflag ds = 2 then width else width - (gidlen ds + 1));
          msk = (if nflag ds = 2 \<or> width < 0 then msk XOR DIRED_SHOW_GID else msk);
          width = width - (linklen ds + 1);
          msk = (if width < 0 then msk XOR DIRED_SHOW_LINKS else msk);
          msk = msk XOR DIRED_SHOW_BLOCKS
      in msk)"

text \<open>
  Lines 698 to 718: \<open>width\<close> is the display width in character cells; the result is the value
  stored in \<^verbatim>\<open>ds->details_mask\<close>.
\<close>

definition details_layout :: "DiredState \<Rightarrow> int \<Rightarrow> cint" where
  "details_layout ds width =
     (let width = width - clamp_int (namelen ds) 16 40;
          msk = DIRED_SHOW_ALL
      in if details_flag ds = DIRED_DETAILS_HIDE then 0
         else if details_flag ds = DIRED_DETAILS_AUTO then details_auto ds width msk
         else msk)"

subsection \<open>Writing to the buffer\<close>

text \<open>
  Modelled from the spec: \<^verbatim>\<open>eb_clear\<close>, \<^verbatim>\<open>eb_puts\<close>, \<^verbatim>\<open>eb_putc\<close> and \<^verbatim>\<open>eb_printf\<close>
  belong to the host's text buffer, which is not among the sources; the spec describes it as
  "insertion of styled text, clearing". Clearing empties the text; a write appends the text in
  the current style at the insertion offset, which is the end of the text after a clear, and
  returns the number of bytes written. \<^verbatim>\<open>eb_printf\<close> receives the text already formatted.
\<close>

definition eb_clear :: "EditBuffer \<Rightarrow> EditBuffer" where
  "eb_clear b = b\<lparr>b_text := [], b_offset := 0\<rparr>"

definition eb_puts :: "EditBuffer \<Rightarrow> string \<Rightarrow> EditBuffer \<times> int" where
  "eb_puts b s =
     (b\<lparr>b_text := b_text b @ map (Pair (cur_style b)) s,
        b_offset := b_offset b + int (length s)\<rparr>, int (length s))"

definition eb_putc :: "EditBuffer \<Rightarrow> char \<Rightarrow> EditBuffer \<times> int" where
  "eb_putc b c = eb_puts b [c]"

definition eb_printf :: "EditBuffer \<Rightarrow> string \<Rightarrow> EditBuffer \<times> int" where
  "eb_printf b s = eb_puts b s"

subsection \<open>The current item: \<^verbatim>\<open>dired_get_cur_item\<close>\<close>

fun cur_item_loop :: "StringItem list \<Rightarrow> int \<Rightarrow> DiredItem option" where
  "cur_item_loop [] index = None"
| "cur_item_loop (it # rest) index =
     (if \<not> hidden (opaque it) then
        (if index = 0 then Some (opaque it) else cur_item_loop rest (index - 1))
      else cur_item_loop rest index)"

definition dired_get_cur_item :: "Host \<Rightarrow> DiredState \<Rightarrow> EditBuffer \<Rightarrow> EditState \<Rightarrow> DiredItem option" where
  "dired_get_cur_item h ds b e =
     (let index = list_get_pos h b e - DIRED_HEADER
      in if index \<ge> 0 then cur_item_loop (items ds) index else None)"

subsection \<open>The rows of the listing\<close>

text \<open>\<^verbatim>\<open>get_trailchar\<close>; the result 0 is \<open>None\<close>. Linux has no \<^verbatim>\<open>S_ISWHT\<close>.\<close>

definition get_trailchar :: "mode_t \<Rightarrow> char option" where
  "get_trailchar m =
     (let trailchar = None;
          trailchar = (if m AND S_IEXEC \<noteq> 0 then Some (CHR ''*'') else trailchar);
          trailchar = (if S_ISDIR m then Some (CHR ''/'') else trailchar);
          trailchar = (if S_ISLNK m then Some (CHR ''@'') else trailchar);
          trailchar = (if S_ISSOCK m then Some (CHR ''='') else trailchar);
          trailchar = (if S_ISFIFO m then Some (CHR ''|'') else trailchar)
      in trailchar)"

text \<open>\<^verbatim>\<open>getentryslink\<close>: the target of a link, \<open>None\<close> when it is empty or cannot be read.\<close>

definition getentryslink :: "Host \<Rightarrow> int \<Rightarrow> string \<Rightarrow> string \<Rightarrow> string option" where
  "getentryslink h sz dir nm =
     (let filename = dir @ ''/'' @ nm;
          target =
            (if int (length filename) < MAX_FILENAME_SIZE h + MAX_FILENAME_SIZE h + 1 then
               (case readlink h filename of
                  Some t \<Rightarrow> take (nat (sz - 1)) t
                | None \<Rightarrow> [])
             else [])
      in if target \<noteq> [] then Some target else None)"

definition inflect :: "int \<Rightarrow> string \<Rightarrow> string \<Rightarrow> string" where
  "inflect n singular plural = (if n = 1 then singular else plural)"

text \<open>\<^verbatim>\<open>col += eb_printf(b, ...)\<close>\<close>

definition emit :: "EditBuffer \<times> int \<Rightarrow> string \<Rightarrow> EditBuffer \<times> int" where
  "emit bc s = (let (b, col) = bc; (b', n) = eb_printf b s in (b', col + n))"

text \<open>One of the four counted parts of the header line, with the separator \<^verbatim>\<open>seq\<close>.\<close>

definition header_count :: "EditBuffer \<times> char \<Rightarrow> int \<Rightarrow> string \<Rightarrow> string \<Rightarrow> EditBuffer \<times> char" where
  "header_count bs n singular plural =
     (let (b, seq) = bs
      in if n \<noteq> 0 then
           (fst (eb_printf b ([seq] @ '' '' @ show_int n @ '' '' @ inflect n singular plural)),
            CHR '','')
         else (b, seq))"

definition dired_header :: "Host \<Rightarrow> DiredState \<Rightarrow> EditBuffer \<Rightarrow> EditBuffer" where
  "dired_header h ds b =
     (let seq = CHR '' '';
          b = b\<lparr>cur_style := DIRED_STYLE_HEADER\<rparr>;
          b = fst (eb_puts b ''  Directory of '');
          b = b\<lparr>cur_style := DIRED_STYLE_DIRECTORY\<rparr>;
          b = fst (eb_puts b (path ds));
          b = b\<lparr>cur_style := DIRED_STYLE_HEADER\<rparr>;
          b = fst (eb_puts b [CHR 0x0A, CHR '' '', CHR '' '']);
          bs = header_count (b, seq) (ndirs ds) ''directory'' ''directories'';
          bs = header_count bs (ndirs_hidden ds) ''hidden directory'' ''hidden directories'';
          bs = header_count bs (nfiles ds) ''file'' ''files'';
          bs = header_count bs (nfiles_hidden ds) ''hidden file'' ''hidden files'';
          bs = (if total_bytes ds \<noteq> 0 then
                  (let buf = fst (format_number (MAX_FILENAME_SIZE h) (hflag ds) (total_bytes ds))
                   in (fst (eb_printf (fst bs)
                              ([snd bs] @ '' '' @ buf @ '' ''
                               @ inflect (total_bytes ds) ''byte'' ''bytes'')),
                       CHR '',''))
                else bs);
          b = (if c_int_cast (ndirs ds + ndirs_hidden ds + nfiles ds + nfiles_hidden ds) = 0
               then fst (eb_printf (fst bs) ([snd bs] @ '' empty''))
               else fst bs);
          b = fst (eb_putc b (CHR 0x0A))
      in b)"

text \<open>\<^verbatim>\<open>if (c) col += eb_printf(b, ...)\<close>\<close>

definition emit_if :: "bool \<Rightarrow> EditBuffer \<times> int \<Rightarrow> string \<Rightarrow> EditBuffer \<times> int" where
  "emit_if c bc s = (if c then emit bc s else bc)"

text \<open>
  Lines 775 to 802: the mark and the shown columns of one item; the result is the buffer and
  \<^verbatim>\<open>col\<close>. \<open>blocks\<close> is the block count of the item and \<open>date\<close> the result of
  \<^verbatim>\<open>format_date\<close>.
\<close>

definition row_columns :: "Host \<Rightarrow> DiredState \<Rightarrow> DiredItem \<Rightarrow> EditBuffer \<Rightarrow> int \<Rightarrow> string \<times> int \<Rightarrow> EditBuffer \<times> int" where
  "row_columns h ds dip b blocks date =
     (let bc = eb_printf b [mark dip, CHR '' ''];
          bc = emit_if (details_mask ds AND DIRED_SHOW_BLOCKS \<noteq> 0) bc
                 (printf_d (blockslen ds) blocks @ '' '');
          bc = emit_if (details_mask ds AND DIRED_SHOW_MODE \<noteq> 0) bc
                 (compute_attr (mode dip) @ '' '');
          bc = emit_if (details_mask ds AND DIRED_SHOW_LINKS \<noteq> 0) bc
                 (printf_d (linklen ds) (c_int_cast (uint (nlink dip))) @ '' '');
          bc = emit_if (details_mask ds AND DIRED_SHOW_UID \<noteq> 0) bc
                 (pad_right (uidlen ds)
                    (fst (format_uid h (MAX_FILENAME_SIZE h) (nflag ds) (uid dip))) @ '' '');
          bc = emit_if (details_mask ds AND DIRED_SHOW_GID \<noteq> 0) bc
                 (pad_right (gidlen ds)
                    (fst (format_gid h (MAX_FILENAME_SIZE h) (nflag ds) (gid dip))) @ '' '');
          bc = emit_if (details_mask ds AND DIRED_SHOW_SIZE \<noteq> 0) bc
                 ('' '' @ pad_left (sizelen ds) (CHR '' '')
                    (fst (format_size (MAX_FILENAME_SIZE h) (hflag ds) (mode dip) (rdev dip)
                           (size dip))) @ ''  '');
          bc = emit_if (details_mask ds AND DIRED_SHOW_DATE \<noteq> 0) bc (fst date @ ''  '')
      in bc)"

text \<open>
  Lines 805 to 823: the name in the style of its kind, the trailing character, the target of a
  link, and the end of the line in the normal style.
\<close>

definition row_name_write :: "Host \<Rightarrow> DiredState \<Rightarrow> DiredItem \<Rightarrow> EditBuffer \<Rightarrow> EditBuffer" where
  "row_name_write h ds dip b =
     (let b = b\<lparr>cur_style := (if S_ISDIR (mode dip) then DIRED_STYLE_DIRECTORY
                                else DIRED_STYLE_FILENAME)\<rparr>;
          b = fst (eb_puts b (name dip));
          b = (case get_trailchar (mode dip) of Some c \<Rightarrow> fst (eb_putc b c) | None \<Rightarrow> b);
          b = (if S_ISLNK (mode dip) then
                 (case getentryslink h (MAX_FILENAME_SIZE h) (path ds) (name dip) of
                    Some t \<Rightarrow> fst (eb_printf b ('' -> '' @ t))
                  | None \<Rightarrow> b)
               else b);
          b = b\<lparr>cur_style := DIRED_STYLE_NORMAL\<rparr>;
          b = fst (eb_putc b (CHR 0x0A))
      in b)"

text \<open>
  The line of one visible item; the second component is the new \<^verbatim>\<open>ds->fnamecol\<close>. The two
  computations that can stop the program, the block count and the date, come first in the
  model, each only when its column is shown; their values are written where the source writes
  them. What the buffer holds when the program stops is not observed.
\<close>

definition dired_row :: "Host \<Rightarrow> DiredGlobals \<Rightarrow> DiredState \<Rightarrow> DiredItem \<Rightarrow> EditBuffer \<Rightarrow> (EditBuffer \<times> int) option" where
  "dired_row h g ds dip b =
     (case (if details_mask ds AND DIRED_SHOW_BLOCKS \<noteq> 0 then item_blocks ds dip else Some 0) of
        None \<Rightarrow> None
      | Some blocks \<Rightarrow>
          (case (if details_mask ds AND DIRED_SHOW_DATE \<noteq> 0
                 then format_date h g (MAX_FILENAME_SIZE h) (mtime dip) (dired_time_format g)
                 else Some ([], 0)) of
             None \<Rightarrow> None
           | Some date \<Rightarrow>
               Some (let bc = row_columns h ds dip b blocks date
                     in (row_name_write h ds dip (fst bc), snd bc - 1))))"

text \<open>
  The loop over the items: every item records the offset of its line; the item that was current
  becomes \<^verbatim>\<open>ds->last_cur\<close> and the cursor of the window moves to it; a hidden item prints
  nothing. \<open>cur\<close> is the address of \<^verbatim>\<open>cur_item\<close>. The loop has no result when a line has
  none.
\<close>

fun render_loop :: "Host \<Rightarrow> DiredGlobals \<Rightarrow> nat option \<Rightarrow> StringItem list \<Rightarrow> DiredState \<Rightarrow> EditBuffer \<Rightarrow> EditState option \<Rightarrow> (StringItem list \<times> DiredState \<times> EditBuffer \<times> EditState option) option" where
  "render_loop h g cur [] ds b s = Some ([], ds, b, s)"
| "render_loop h g cur (it # rest) ds b s =
     (let dip = (opaque it)\<lparr>offset := b_offset b\<rparr>;
          it' = it\<lparr>opaque := dip\<rparr>;
          is_cur = (cur = Some (addr dip));
          ds = (if is_cur then ds\<lparr>last_cur := Some (addr dip)\<rparr> else ds);
          s = (if is_cur then map_option (\<lambda>e. e\<lparr>es_offset := b_offset b\<rparr>) s else s)
      in if hidden dip then
           map_option (\<lambda>r. (it' # fst r, snd r)) (render_loop h g cur rest ds b s)
         else
           (case dired_row h g ds dip b of
              None \<Rightarrow> None
            | Some row \<Rightarrow>
                map_option (\<lambda>r. (it' # fst r, snd r))
                  (render_loop h g cur rest (ds\<lparr>fnamecol := snd row\<rparr>) (fst row) s)))"

subsection \<open>The update: \<^verbatim>\<open>dired_update_buffer\<close>\<close>

text \<open>
  Lines 660 to 690, one definition for each of the three blocks: a changed configuration sets
  the flag of the stage; a flag that is set runs the stage and sets the rebuild flag. Each
  result carries the new value of \<^verbatim>\<open>flags\<close>.
\<close>

definition stage_sort :: "Host \<Rightarrow> DiredGlobals \<Rightarrow> DiredState \<Rightarrow> cint \<Rightarrow> DiredState \<times> cint" where
  "stage_sort h g ds flags =
     (let flags = (if sort_mode ds \<noteq> dired_sort_mode g
                   then flags OR DIRED_UPDATE_SORT else flags)
      in if flags AND DIRED_UPDATE_SORT \<noteq> 0 then
           (let flags = flags OR DIRED_UPDATE_REBUILD;
                ds = ds\<lparr>sort_mode := dired_sort_mode g\<rparr>
            in (ds\<lparr>items := qe_qsort_r h (dired_sort_func h ds) (items ds)\<rparr>, flags))
         else (ds, flags))"

definition stage_filter :: "DiredGlobals \<Rightarrow> DiredState \<Rightarrow> cint \<Rightarrow> DiredState \<times> cint" where
  "stage_filter g ds flags =
     (let flags = (if show_dot_files ds \<noteq> dired_show_dot_files g
                      \<or> show_ds_store ds \<noteq> dired_show_ds_store g
                   then flags OR DIRED_UPDATE_FILTER else flags)
      in if flags AND DIRED_UPDATE_FILTER \<noteq> 0 then
           (dired_filter_files g ds, flags OR DIRED_UPDATE_REBUILD)
         else (ds, flags))"

text \<open>
  The third block sets the flags before it calls \<^verbatim>\<open>dired_compute_columns\<close>, which may not
  return; so the result is the value of \<^verbatim>\<open>flags\<close> and, when the call returns, the
  configuration and the state.
\<close>

definition stage_columns :: "Host \<Rightarrow> DiredGlobals \<Rightarrow> DiredState \<Rightarrow> cint \<Rightarrow> cint \<times> (DiredGlobals \<times> DiredState) option" where
  "stage_columns h g ds flags =
     (let flags = (if time_format ds \<noteq> dired_time_format g
                      \<or> nflag ds \<noteq> dired_nflag g
                      \<or> hflag ds \<noteq> dired_hflag g
                      \<or> details_flag ds \<noteq> last_details_flag ds
                   then flags OR DIRED_UPDATE_COLUMNS else flags)
      in if flags AND DIRED_UPDATE_COLUMNS \<noteq> 0 then
           (flags OR DIRED_UPDATE_REBUILD, dired_compute_columns h g ds)
         else (flags, Some (g, ds)))"

definition update_stages :: "Host \<Rightarrow> DiredGlobals \<Rightarrow> DiredState \<Rightarrow> cint \<Rightarrow> cint \<times> (DiredGlobals \<times> DiredState) option" where
  "update_stages h g ds flags =
     (let sorted = stage_sort h g ds flags;
          filtered = stage_filter g (fst sorted) (snd sorted)
      in stage_columns h g (fst filtered) (snd filtered))"

text \<open>
  Lines 646 to 658: the width of the window in character cells and in pixels, 80 without a
  window.
\<close>

definition display_width :: "Host \<Rightarrow> EditState option \<Rightarrow> int" where
  "display_width h s =
     (case s of
        Some e \<Rightarrow> c_div (es_width e) (max_int 1 (get_glyph_width h e))
      | None \<Rightarrow> 80)"

definition window_width :: "EditState option \<Rightarrow> int" where
  "window_width s = (case s of Some e \<Rightarrow> es_width e | None \<Rightarrow> 80)"

text \<open>Lines 695 to 718: the rebuild records the detail mode and the width, and lays out.\<close>

definition layout_state :: "DiredState \<Rightarrow> int \<Rightarrow> int \<Rightarrow> DiredState" where
  "layout_state ds width ww =
     (let ds = ds\<lparr>last_details_flag := details_flag ds,
                  last_width := ww,
                  last_cur := None\<rparr>
      in ds\<lparr>details_mask := details_layout ds width\<rparr>)"

text \<open>
  Lines 720 to 829: the buffer is cleared and written again from the header to the last item.
  Clearing the buffer resets the cursor and the top offset of the window, as the comment in the
  source says.
\<close>

definition dired_rebuild :: "Host \<Rightarrow> DiredGlobals \<Rightarrow> DiredState \<Rightarrow> EditBuffer \<Rightarrow> EditState option \<Rightarrow> int \<Rightarrow> int \<Rightarrow> int \<Rightarrow> nat option \<Rightarrow> (DiredState \<times> EditBuffer \<times> EditState option) option" where
  "dired_rebuild h g ds b s width ww top_line cur =
     (let ds = layout_state ds width ww;
          b = eb_clear b;
          s = map_option (\<lambda>e. e\<lparr>es_offset := 0, es_offset_top := 0\<rparr>) s;
          b = dired_header h ds b;
          b = b\<lparr>cur_style := DIRED_STYLE_NORMAL\<rparr>
      in case render_loop h g cur (items ds) ds b s of
           None \<Rightarrow> None
         | Some r \<Rightarrow>
             Some
              (let ds = (fst (snd r))\<lparr>items := fst r\<rparr>;
                   b = fst (snd (snd r));
                   s = snd (snd (snd r));
                   b = b\<lparr>modified := 0, b_flags := b_flags b OR BF_READONLY h\<rparr>;
                   s = map_option (\<lambda>e. e\<lparr>es_offset_top := eb_goto_pos h b top_line 0\<rparr>) s
               in (ds, b, s)))"

text \<open>
  The whole function. \<^verbatim>\<open>ds\<close> and \<^verbatim>\<open>s\<close> may be \<^verbatim>\<open>NULL\<close> (\<open>None\<close>); without a state the function
  returns at once. The result is the configuration, the state, the buffer and the window after
  the call, \<open>None\<close> when the program stops in the call.
\<close>

definition dired_update_buffer :: "Host \<Rightarrow> DiredGlobals \<Rightarrow> DiredState option \<Rightarrow> EditBuffer \<Rightarrow> EditState option \<Rightarrow> cint \<Rightarrow> (DiredGlobals \<times> DiredState option \<times> EditBuffer \<times> EditState option) option" where
  "dired_update_buffer h g dso b s flags =
     (case dso of
        None \<Rightarrow> Some (g, None, b, s)
      | Some ds \<Rightarrow>
          (let width = display_width h s;
               ww = window_width s;
               top_line = (case s of Some e \<Rightarrow> fst (eb_get_pos h b (es_offset_top e))
                           | None \<Rightarrow> 0);
               cur_item = (case s of Some e \<Rightarrow> dired_get_cur_item h ds b e | None \<Rightarrow> None);
               st = update_stages h g ds flags;
               flags = fst st
           in case snd st of
                None \<Rightarrow> None
              | Some gds \<Rightarrow>
                  if flags AND DIRED_UPDATE_REBUILD = 0 then Some (fst gds, Some (snd gds), b, s)
                  else
                    map_option (\<lambda>r. (fst gds, Some (fst r), fst (snd r), snd (snd r)))
                      (dired_rebuild h (fst gds) (snd gds) b s width ww top_line
                         (map_option addr cur_item))))"

subsection \<open>Setting the time format: \<^verbatim>\<open>dired_time_format_set_value\<close>\<close>

text \<open>The two results of the setter, of the type \<^verbatim>\<open>QVarType\<close> of qe.h.\<close>

datatype QVarType = VAR_UNKNOWN | VAR_NUMBER

text \<open>
  The chain of comparisons on \<^verbatim>\<open>str\<close>: the format of the first token that \<^verbatim>\<open>strxcmp\<close> finds
  equal, \<open>None\<close> for \<^verbatim>\<open>return VAR_UNKNOWN\<close>.
\<close>

definition time_format_of_token :: "Host \<Rightarrow> string \<Rightarrow> int option" where
  "time_format_of_token h s =
     (if strxcmp h s ''default'' = 0 then Some TF_COMPACT
      else if strxcmp h s ''compact'' = 0 then Some TF_COMPACT
      else if strxcmp h s ''dos'' = 0 then Some TF_DOS
      else if strxcmp h s ''dos-long'' = 0 then Some TF_DOS_LONG
      else if strxcmp h s ''touch'' = 0 then Some TF_TOUCH
      else if strxcmp h s ''touch-long'' = 0 then Some TF_TOUCH_LONG
      else if strxcmp h s ''full'' = 0 then Some TF_FULL
      else if strxcmp h s ''seconds'' = 0 then Some TF_SECONDS
      else None)"

text \<open>
  The argument \<^verbatim>\<open>str\<close> (here \<open>strp\<close>) may be \<^verbatim>\<open>NULL\<close> (\<open>None\<close>), then \<open>format\<close> is taken as
  it is. \<open>vp_modified\<close> is \<^verbatim>\<open>vp->modified\<close>. The result is the return value, the configuration
  and \<^verbatim>\<open>vp->modified\<close> after the call.
\<close>

definition dired_time_format_set_value :: "Host \<Rightarrow> DiredGlobals \<Rightarrow> int \<Rightarrow> string option \<Rightarrow> int \<Rightarrow> QVarType \<times> DiredGlobals \<times> int" where
  "dired_time_format_set_value h g vp_modified strp format =
     (case (case strp of None \<Rightarrow> Some format | Some s \<Rightarrow> time_format_of_token h s) of
        None \<Rightarrow> (VAR_UNKNOWN, g, vp_modified)
      | Some format \<Rightarrow>
          if format < 0 \<or> format > TF_MAX then (VAR_UNKNOWN, g, vp_modified)
          else if dired_time_format g \<noteq> format
          then (VAR_NUMBER, g\<lparr>dired_time_format := format\<rparr>, 1)
          else (VAR_NUMBER, g, vp_modified))"

subsection \<open>Item creation in \<^verbatim>\<open>dired_build_list\<close>\<close>

text \<open>\<^verbatim>\<open>struct stat\<close>, the fields that the scanner copies.\<close>

record stat =
  st_mode :: mode_t
  st_nlink :: "64 word"
  st_uid :: "32 word"
  st_gid :: "32 word"
  st_rdev :: "64 word"
  st_mtime :: int
  st_size :: int

text \<open>
  The item that the scanner adds for the path \<open>filename\<close> with base name \<open>p\<close>: the list string
  is the base name cut to the 1024-byte line buffer, the item is not hidden and not marked.
  \<open>a\<close> is the address of the new item.
\<close>

definition dired_new_item :: "nat \<Rightarrow> string \<Rightarrow> string \<Rightarrow> stat \<Rightarrow> StringItem" where
  "dired_new_item a filename p st =
     \<lparr>str = take 1023 p,
      opaque = \<lparr>addr = a, fullname = filename, mode = st_mode st, nlink = st_nlink st,
                uid = st_uid st, gid = st_gid st, rdev = st_rdev st, mtime = st_mtime st,
                size = st_size st, offset = 0, hidden = False, mark = CHR '' '', name = p\<rparr>\<rparr>"

subsection \<open>Example data\<close>

text \<open>
  A directory with the subdirectory \<^verbatim>\<open>sub\<close>, the file \<^verbatim>\<open>a.txt\<close> of 100 bytes and the
  dot-file \<^verbatim>\<open>.hidden\<close> of 50 bytes, and a host with a bytewise collation and an insertion sort.
\<close>

fun bytes_compare :: "string \<Rightarrow> string \<Rightarrow> int" where
  "bytes_compare [] [] = 0"
| "bytes_compare [] (b # bs) = - 1"
| "bytes_compare (a # as) [] = 1"
| "bytes_compare (a # as) (b # bs) =
     (if a = b then bytes_compare as bs
      else if (of_char a :: nat) < of_char b then - 1 else 1)"

fun insert_by :: "('a \<Rightarrow> 'a \<Rightarrow> int) \<Rightarrow> 'a \<Rightarrow> 'a list \<Rightarrow> 'a list" where
  "insert_by cmp x [] = [x]"
| "insert_by cmp x (y # ys) = (if cmp x y \<le> 0 then x # y # ys else y # insert_by cmp x ys)"

definition example_host :: Host where
  "example_host =
     \<lparr>qe_strcollate = bytes_compare,
      get_extension = (\<lambda>s. dropWhile (\<lambda>c. c \<noteq> CHR ''.'') s),
      qe_qsort_r = (\<lambda>cmp xs. foldr (insert_by cmp) xs []),
      strxcmp = bytes_compare,
      getpwuid = (\<lambda>u. if u = 1000 then Some ''alice'' else None),
      getgrgid = (\<lambda>g. if g = 1000 then Some ''staff'' else None),
      localtime = (\<lambda>t. Some \<lparr>tm_sec = 20, tm_min = 13, tm_hour = 22, tm_mday = 14,
                              tm_mon = 10, tm_year = 123\<rparr>),
      time_now = 1700000000,
      readlink = (\<lambda>f. None),
      get_glyph_width = (\<lambda>e. 1),
      eb_get_pos = (\<lambda>b off. (0, 0)),
      eb_goto_pos = (\<lambda>b line col. 0),
      list_get_pos = (\<lambda>b e. 0),
      MAX_FILENAME_SIZE = 1024,
      BF_READONLY = 1\<rparr>"

definition example_dir :: StringItem where
  "example_dir = dired_new_item 1 ''/d/sub'' ''sub''
     \<lparr>st_mode = 0x41ED, st_nlink = 2, st_uid = 1000, st_gid = 1000, st_rdev = 0,
      st_mtime = 1700000000, st_size = 4096\<rparr>"

definition example_file :: StringItem where
  "example_file = dired_new_item 2 ''/d/a.txt'' ''a.txt''
     \<lparr>st_mode = 0x81A4, st_nlink = 1, st_uid = 1000, st_gid = 1000, st_rdev = 0,
      st_mtime = 1700000100, st_size = 100\<rparr>"

definition example_dotfile :: StringItem where
  "example_dotfile = dired_new_item 3 ''/d/.hidden'' ''.hidden''
     \<lparr>st_mode = 0x81A4, st_nlink = 1, st_uid = 1000, st_gid = 1000, st_rdev = 0,
      st_mtime = 1700000200, st_size = 50\<rparr>"

definition example_ds_store :: StringItem where
  "example_ds_store = dired_new_item 4 ''/d/.DS_Store'' ''.DS_Store''
     \<lparr>st_mode = 0x81A4, st_nlink = 1, st_uid = 1000, st_gid = 1000, st_rdev = 0,
      st_mtime = 1700000300, st_size = 6148\<rparr>"

text \<open>A regular file of \<open>2\<^sup>6\<^sup>2\<close> bytes.\<close>

definition example_huge :: StringItem where
  "example_huge = dired_new_item 5 ''/d/huge'' ''huge''
     \<lparr>st_mode = 0x81A4, st_nlink = 1, st_uid = 1000, st_gid = 1000, st_rdev = 0,
      st_mtime = 1700000400, st_size = 2 ^ 62\<rparr>"

definition example_buffer :: EditBuffer where
  "example_buffer =
     \<lparr>b_text = map (Pair QE_STYLE_DEFAULT) ''old'', cur_style = QE_STYLE_DEFAULT, b_offset = 3,
      modified = 1, b_flags = 0\<rparr>"

definition example_globals :: DiredGlobals where
  "example_globals =
     \<lparr>dired_curtime = 1700000000, dired_time_format = 0, dired_show_dot_files = 0,
      dired_show_ds_store = 0, dired_nflag = 0, dired_hflag = 0, dired_sort_mode = 17\<rparr>"

definition example_state :: DiredState where
  "example_state =
     \<lparr>items = [example_file, example_dotfile, example_dir],
      time_format = 0, show_dot_files = 0, show_ds_store = 0, hflag = 0, nflag = 0,
      details_flag = 0, last_details_flag = 0, sort_mode = 17, last_cur = None,
      total_bytes = 100, ndirs = 1, nfiles = 1, ndirs_hidden = 0, nfiles_hidden = 1,
      blocksize = 1024, last_width = 80, details_mask = 0,
      blockslen = 1, modelen = 10, linklen = 1, uidlen = 5, gidlen = 5, sizelen = 4,
      datelen = 12, namelen = 7, fnamecol = 0, path = ''/d''\<rparr>"

subsection \<open>Vocabulary of the properties\<close>

text \<open>An entry is a directory entry when \<^verbatim>\<open>S_ISDIR\<close> holds of its mode.\<close>

definition is_dir_item :: "StringItem \<Rightarrow> bool" where
  "is_dir_item it = S_ISDIR (mode (opaque it))"

text \<open>
  The entries of a list that are visible and are not directories, by the hidden flag that the
  filter has stored in them.
\<close>

definition visible_files :: "StringItem list \<Rightarrow> StringItem list" where
  "visible_files xs = filter (\<lambda>it. \<not> hidden (opaque it) \<and> \<not> is_dir_item it) xs"

text \<open>
  A column is shown when its bit is set in the detail mask; this is the test that the row
  printer applies (\<^verbatim>\<open>ds->details_mask & DIRED_SHOW_SIZE\<close> and so on).
\<close>

definition shown :: "cint \<Rightarrow> cint \<Rightarrow> bool" where
  "shown msk b = (msk AND b \<noteq> 0)"

text \<open>
  The cells that the row printer writes for the shown optional columns, separators included:
  \<^verbatim>\<open>"%*ld "\<close> for the blocks, \<^verbatim>\<open>"%s "\<close> for the mode, \<^verbatim>\<open>"%*d "\<close> for the links,
  \<^verbatim>\<open>"%-*s "\<close> for the owner and the group, \<^verbatim>\<open>" %*s  "\<close> for the size (one cell before the
  text and two after it) and \<^verbatim>\<open>"%s  "\<close> for the date, each text as wide as the cached width
  of its column.
\<close>

definition printed_cost :: "DiredState \<Rightarrow> cint \<Rightarrow> int" where
  "printed_cost ds msk =
     (if shown msk DIRED_SHOW_BLOCKS then blockslen ds + 1 else 0)
   + (if shown msk DIRED_SHOW_MODE then modelen ds + 1 else 0)
   + (if shown msk DIRED_SHOW_LINKS then linklen ds + 1 else 0)
   + (if shown msk DIRED_SHOW_UID then uidlen ds + 1 else 0)
   + (if shown msk DIRED_SHOW_GID then gidlen ds + 1 else 0)
   + (if shown msk DIRED_SHOW_SIZE then 1 + sizelen ds + 2 else 0)
   + (if shown msk DIRED_SHOW_DATE then datelen ds + 2 else 0)"

text \<open>The separator cells that the row printer writes around the text of the size column.\<close>

definition size_separators :: "cint \<Rightarrow> int" where
  "size_separators msk = (if shown msk DIRED_SHOW_SIZE then 3 else 0)"

text \<open>
  The texts of an item are as wide as the cached widths say: no text is wider than the width of
  its column, and the date and the mode, which the row printer does not pad, have the width of
  the date column and of the mode column.
\<close>

definition texts_fit :: "Host \<Rightarrow> DiredGlobals \<Rightarrow> DiredState \<Rightarrow> DiredItem \<Rightarrow> bool" where
  "texts_fit h g ds dip =
     ((case item_blocks ds dip of
         Some blocks \<Rightarrow> int (length (show_int blocks)) \<le> blockslen ds
       | None \<Rightarrow> False)
      \<and> int (length (compute_attr (mode dip))) = modelen ds
      \<and> int (length (show_int (c_int_cast (uint (nlink dip))))) \<le> linklen ds
      \<and> int (length (fst (format_uid h (MAX_FILENAME_SIZE h) (nflag ds) (uid dip)))) \<le> uidlen ds
      \<and> int (length (fst (format_gid h (MAX_FILENAME_SIZE h) (nflag ds) (gid dip)))) \<le> gidlen ds
      \<and> int (length (fst (format_size (MAX_FILENAME_SIZE h) (hflag ds) (mode dip) (rdev dip)
                             (size dip)))) \<le> sizelen ds
      \<and> (case format_date h g (MAX_FILENAME_SIZE h) (mtime dip) (dired_time_format g) of
            Some date \<Rightarrow> int (length (fst date)) = datelen ds
          | None \<Rightarrow> False))"

text \<open>
  The listing as a text. Styled text gives every character its style; the text of a column is
  empty when the column is not shown.
\<close>

definition styled :: "QEStyle \<Rightarrow> string \<Rightarrow> (QEStyle \<times> char) list" where
  "styled st s = map (Pair st) s"

definition col_if :: "bool \<Rightarrow> string \<Rightarrow> string" where
  "col_if c s = (if c then s else [])"

text \<open>
  The cells of a row before the name: the mark, then the shown columns in the order blocks,
  mode, links, owner, group, size, date. There are none when the block count or the date of a
  shown column has no value.
\<close>

definition row_cells :: "Host \<Rightarrow> DiredGlobals \<Rightarrow> DiredState \<Rightarrow> DiredItem \<Rightarrow> string option" where
  "row_cells h g ds dip =
     (case (if shown (details_mask ds) DIRED_SHOW_BLOCKS then item_blocks ds dip else Some 0) of
        None \<Rightarrow> None
      | Some blocks \<Rightarrow>
     (case (if shown (details_mask ds) DIRED_SHOW_DATE
            then format_date h g (MAX_FILENAME_SIZE h) (mtime dip) (dired_time_format g)
            else Some ([], 0)) of
        None \<Rightarrow> None
      | Some date \<Rightarrow>
          Some ([mark dip, CHR '' '']
            @ col_if (shown (details_mask ds) DIRED_SHOW_BLOCKS)
                (printf_d (blockslen ds) blocks @ '' '')
            @ col_if (shown (details_mask ds) DIRED_SHOW_MODE) (compute_attr (mode dip) @ '' '')
            @ col_if (shown (details_mask ds) DIRED_SHOW_LINKS)
                (printf_d (linklen ds) (c_int_cast (uint (nlink dip))) @ '' '')
            @ col_if (shown (details_mask ds) DIRED_SHOW_UID)
                (pad_right (uidlen ds)
                   (fst (format_uid h (MAX_FILENAME_SIZE h) (nflag ds) (uid dip))) @ '' '')
            @ col_if (shown (details_mask ds) DIRED_SHOW_GID)
                (pad_right (gidlen ds)
                   (fst (format_gid h (MAX_FILENAME_SIZE h) (nflag ds) (gid dip))) @ '' '')
            @ col_if (shown (details_mask ds) DIRED_SHOW_SIZE)
                ('' '' @ pad_left (sizelen ds) (CHR '' '')
                   (fst (format_size (MAX_FILENAME_SIZE h) (hflag ds) (mode dip) (rdev dip)
                          (size dip))) @ ''  '')
            @ col_if (shown (details_mask ds) DIRED_SHOW_DATE) (fst date @ ''  ''))))"

text \<open>
  The name of an item as the row shows it: the name, the trailing character of the file type
  and the target of a link.
\<close>

definition row_name :: "Host \<Rightarrow> DiredState \<Rightarrow> DiredItem \<Rightarrow> string" where
  "row_name h ds dip =
     name dip
     @ (case get_trailchar (mode dip) of Some c \<Rightarrow> [c] | None \<Rightarrow> [])
     @ (if S_ISLNK (mode dip) then
          (case getentryslink h (MAX_FILENAME_SIZE h) (path ds) (name dip) of
             Some t \<Rightarrow> '' -> '' @ t
           | None \<Rightarrow> [])
        else [])"

text \<open>
  The row of an item: the cells in the normal style, the name in the style of directories or
  of files, and the end of the line.
\<close>

definition row_text :: "Host \<Rightarrow> DiredGlobals \<Rightarrow> DiredState \<Rightarrow> DiredItem \<Rightarrow> (QEStyle \<times> char) list option" where
  "row_text h g ds dip =
     map_option
       (\<lambda>cells. styled DIRED_STYLE_NORMAL cells
          @ styled (if S_ISDIR (mode dip) then DIRED_STYLE_DIRECTORY else DIRED_STYLE_FILENAME)
              (row_name h ds dip)
          @ styled DIRED_STYLE_NORMAL [CHR 0x0A])
       (row_cells h g ds dip)"

text \<open>The rows of a list of items: one row for every item that is not hidden, in the order of
  the list.\<close>

fun rows_text :: "Host \<Rightarrow> DiredGlobals \<Rightarrow> DiredState \<Rightarrow> StringItem list \<Rightarrow> (QEStyle \<times> char) list option" where
  "rows_text h g ds [] = Some []"
| "rows_text h g ds (it # rest) =
     (if hidden (opaque it) then rows_text h g ds rest
      else
        (case row_text h g ds (opaque it) of
           None \<Rightarrow> None
         | Some t \<Rightarrow> map_option ((@) t) (rows_text h g ds rest)))"

text \<open>
  The two lines of the header: the path, then the counts that are not zero and the word
  \<^verbatim>\<open>empty\<close> when the four counters add up to zero. Each of these parts comes after a
  separator character and a blank; the separator is a blank before the first part and a comma
  before every later one.
\<close>

definition count_part :: "int \<Rightarrow> string \<Rightarrow> string \<Rightarrow> string list" where
  "count_part n singular plural =
     (if n \<noteq> 0 then [show_int n @ '' '' @ inflect n singular plural] else [])"

definition header_parts :: "Host \<Rightarrow> DiredState \<Rightarrow> string list" where
  "header_parts h ds =
     count_part (ndirs ds) ''directory'' ''directories''
     @ count_part (ndirs_hidden ds) ''hidden directory'' ''hidden directories''
     @ count_part (nfiles ds) ''file'' ''files''
     @ count_part (nfiles_hidden ds) ''hidden file'' ''hidden files''
     @ (if total_bytes ds \<noteq> 0
        then [fst (format_number (MAX_FILENAME_SIZE h) (hflag ds) (total_bytes ds)) @ '' ''
              @ inflect (total_bytes ds) ''byte'' ''bytes'']
        else [])
     @ (if c_int_cast (ndirs ds + ndirs_hidden ds + nfiles ds + nfiles_hidden ds) = 0
        then [''empty''] else [])"

definition next_seq :: "char \<Rightarrow> string list \<Rightarrow> char" where
  "next_seq seq ps = (if ps = [] then seq else CHR '','')"

fun sep_parts :: "char \<Rightarrow> string list \<Rightarrow> string" where
  "sep_parts seq [] = []"
| "sep_parts seq (p # ps) = [seq, CHR '' ''] @ p @ sep_parts (CHR '','') ps"

definition header_text :: "Host \<Rightarrow> DiredState \<Rightarrow> (QEStyle \<times> char) list" where
  "header_text h ds =
     styled DIRED_STYLE_HEADER ''  Directory of ''
     @ styled DIRED_STYLE_DIRECTORY (path ds)
     @ styled DIRED_STYLE_HEADER
         ([CHR 0x0A, CHR '' '', CHR '' ''] @ sep_parts (CHR '' '') (header_parts h ds)
          @ [CHR 0x0A])"

text \<open>The listing of a state: the header and the rows of its items.\<close>

definition listing_text :: "Host \<Rightarrow> DiredGlobals \<Rightarrow> DiredState \<Rightarrow> (QEStyle \<times> char) list option" where
  "listing_text h g ds = map_option ((@) (header_text h ds)) (rows_text h g ds (items ds))"

text \<open>A buffer after the text \<open>t\<close> has been written at its end.\<close>

definition written :: "EditBuffer \<Rightarrow> (QEStyle \<times> char) list \<Rightarrow> EditBuffer" where
  "written b t = b\<lparr>b_text := b_text b @ t, b_offset := b_offset b + int (length t)\<rparr>"

text \<open>
  The items in the order of the listing: the stage of the sort orders them, the later stages
  keep the order.
\<close>

definition listed_items :: "Host \<Rightarrow> DiredGlobals \<Rightarrow> DiredState \<Rightarrow> cint \<Rightarrow> StringItem list" where
  "listed_items h g ds flags = items (fst (stage_sort h g ds flags))"

text \<open>
  The update runs through for a state when its block size is positive and \<^verbatim>\<open>localtime\<close>
  converts the time of every listed item.
\<close>

definition runs_through :: "Host \<Rightarrow> DiredGlobals \<Rightarrow> DiredState \<Rightarrow> cint \<Rightarrow> bool" where
  "runs_through h g ds flags =
     (0 < blocksize ds
      \<and> list_all (\<lambda>it. localtime h (mtime (opaque it)) \<noteq> None) (listed_items h g ds flags))"

text \<open>
  A configuration change is detected when the state's copy of a setting differs from the
  process-wide value, or the detail mode differs from the one of the last rebuild.
\<close>

definition config_changed :: "DiredGlobals \<Rightarrow> DiredState \<Rightarrow> bool" where
  "config_changed g ds =
     (sort_mode ds \<noteq> dired_sort_mode g
      \<or> show_dot_files ds \<noteq> dired_show_dot_files g
      \<or> show_ds_store ds \<noteq> dired_show_ds_store g
      \<or> time_format ds \<noteq> dired_time_format g
      \<or> nflag ds \<noteq> dired_nflag g
      \<or> hflag ds \<noteq> dired_hflag g
      \<or> details_flag ds \<noteq> last_details_flag ds)"

text \<open>The tokens of the time format with their formats, as the spec lists them.\<close>

definition time_format_tokens :: "(string \<times> int) list" where
  "time_format_tokens =
     [(''default'', TF_COMPACT), (''compact'', TF_COMPACT), (''dos'', TF_DOS),
      (''dos-long'', TF_DOS_LONG), (''touch'', TF_TOUCH), (''touch-long'', TF_TOUCH_LONG),
      (''full'', TF_FULL), (''seconds'', TF_SECONDS)]"

text \<open>
  Modelled from the spec: \<^verbatim>\<open>strxcmp\<close> is defined in util.c, which is not among the sources;
  the spec says that the setter "accepts the literal tokens", so the comparison is modelled as
  equality of the two strings (result 0) or not (result 1). The model of the setter takes the
  comparison from the host; the properties of the setter are stated for a host with this one.
\<close>

definition strxcmp_spec :: "string \<Rightarrow> string \<Rightarrow> int" where
  "strxcmp_spec a b = (if a = b then 0 else 1)"

section \<open>Verified properties\<close>

lemmas example_defs = example_host_def example_dir_def example_file_def example_dotfile_def
  example_globals_def example_state_def dired_new_item_def

subsection \<open>Integer arithmetic\<close>

lemma c_int_cast_add: "c_int_cast (c_int_cast a + b) = c_int_cast (a + b)"
  unfolding c_int_cast_def by simp

lemma c_ll_cast_add: "c_ll_cast (c_ll_cast a + b) = c_ll_cast (a + b)"
  unfolding c_ll_cast_def by simp

lemma c_int_cast_small: "- (2 ^ 31) \<le> n \<Longrightarrow> n < 2 ^ 31 \<Longrightarrow> c_int_cast n = n"
  by (simp add: c_int_cast_def sint_sbintrunc' signed_take_bit_int_eq_self)

lemma c_ll_cast_small: "- (2 ^ 63) \<le> n \<Longrightarrow> n < 2 ^ 63 \<Longrightarrow> c_ll_cast n = n"
  by (simp add: c_ll_cast_def sint_sbintrunc' signed_take_bit_int_eq_self)

lemma c_int_cast_idem: "c_int_cast (c_int_cast a) = c_int_cast a"
  using c_int_cast_add [of a 0] by simp

lemma c_ll_cast_idem: "c_ll_cast (c_ll_cast a) = c_ll_cast a"
  using c_ll_cast_add [of a 0] by simp

subsection \<open>The filter\<close>

lemma filter_step_item:
  "fst (filter_step g it ds) = it\<lparr>opaque := (opaque it)\<lparr>hidden := filter_hidden g (str it)\<rparr>\<rparr>"
  by (simp add: filter_step_def Let_def)

lemma filter_loop_items:
  "fst (filter_loop g xs ds) =
     map (\<lambda>it. it\<lparr>opaque := (opaque it)\<lparr>hidden := filter_hidden g (str it)\<rparr>\<rparr>) xs"
proof (induction xs arbitrary: ds)
  case Nil
  show ?case by simp
next
  case (Cons it rest)
  obtain it' ds' where s: "filter_step g it ds = (it', ds')" by (cases "filter_step g it ds")
  obtain r' ds'' where l: "filter_loop g rest ds' = (r', ds'')" by (cases "filter_loop g rest ds'")
  from s filter_step_item [of g it ds]
  have i: "it' = it\<lparr>opaque := (opaque it)\<lparr>hidden := filter_hidden g (str it)\<rparr>\<rparr>" by simp
  from l Cons.IH [of ds']
  have r: "r' = map (\<lambda>it. it\<lparr>opaque := (opaque it)\<lparr>hidden := filter_hidden g (str it)\<rparr>\<rparr>) rest"
    by simp
  show ?case using s l by (simp add: i r)
qed

text \<open>
  The counters after the loop, in terms of the list that the loop went through: each counter
  has grown by the number of entries of its kind and the byte total by the sizes of the visible
  entries that are not directories, in the arithmetic of its C type.
\<close>

lemma filter_loop_counts:
  "filter_loop g xs ds = (xs', ds') \<Longrightarrow>
   c_int_cast (ndirs ds) = ndirs ds \<Longrightarrow> c_int_cast (ndirs_hidden ds) = ndirs_hidden ds \<Longrightarrow>
   c_int_cast (nfiles ds) = nfiles ds \<Longrightarrow> c_int_cast (nfiles_hidden ds) = nfiles_hidden ds \<Longrightarrow>
   c_ll_cast (total_bytes ds) = total_bytes ds \<Longrightarrow>
     ndirs ds' = c_int_cast (ndirs ds
       + int (length (filter (\<lambda>it. \<not> filter_hidden g (str it) \<and> is_dir_item it) xs)))
   \<and> ndirs_hidden ds' = c_int_cast (ndirs_hidden ds
       + int (length (filter (\<lambda>it. filter_hidden g (str it) \<and> is_dir_item it) xs)))
   \<and> nfiles ds' = c_int_cast (nfiles ds
       + int (length (filter (\<lambda>it. \<not> filter_hidden g (str it) \<and> \<not> is_dir_item it) xs)))
   \<and> nfiles_hidden ds' = c_int_cast (nfiles_hidden ds
       + int (length (filter (\<lambda>it. filter_hidden g (str it) \<and> \<not> is_dir_item it) xs)))
   \<and> total_bytes ds' = c_ll_cast (total_bytes ds
       + sum_list (map (\<lambda>it. size (opaque it))
           (filter (\<lambda>it. \<not> filter_hidden g (str it) \<and> \<not> is_dir_item it) xs)))"
proof (induction xs arbitrary: ds xs' ds')
  case Nil
  then show ?case by simp
next
  case (Cons it rest)
  obtain it1 ds1 where s: "filter_step g it ds = (it1, ds1)" by (cases "filter_step g it ds")
  obtain r1 ds2 where l: "filter_loop g rest ds1 = (r1, ds2)" by (cases "filter_loop g rest ds1")
  from Cons.prems(1) s l have e: "ds' = ds2" by simp
  from s Cons.prems(2-6)
  have ok: "c_int_cast (ndirs ds1) = ndirs ds1" "c_int_cast (ndirs_hidden ds1) = ndirs_hidden ds1"
    "c_int_cast (nfiles ds1) = nfiles ds1" "c_int_cast (nfiles_hidden ds1) = nfiles_hidden ds1"
    "c_ll_cast (total_bytes ds1) = total_bytes ds1"
    by (auto simp: filter_step_def Let_def c_int_cast_idem c_ll_cast_idem split: if_splits)
  note ih = Cons.IH [OF l ok]
  from s show ?case unfolding e using ih
    by (auto simp: filter_step_def Let_def is_dir_item_def c_int_cast_add c_ll_cast_add
          add.assoc split: if_splits)
qed

lemma dired_filter_files_items:
  "items (dired_filter_files g ds) =
     map (\<lambda>it. it\<lparr>opaque := (opaque it)\<lparr>hidden := filter_hidden g (str it)\<rparr>\<rparr>) (items ds)"
proof -
  let ?ds0 = "ds\<lparr>show_dot_files := dired_show_dot_files g,
                    show_ds_store := dired_show_ds_store g,
                    total_bytes := 0, ndirs := 0, nfiles := 0,
                    ndirs_hidden := 0, nfiles_hidden := 0\<rparr>"
  obtain its ds1 where l: "filter_loop g (items ds) ?ds0 = (its, ds1)"
    by (cases "filter_loop g (items ds) ?ds0")
  from l filter_loop_items [of g "items ds" ?ds0] have "its = map (\<lambda>it. it\<lparr>opaque := (opaque it)\<lparr>hidden := filter_hidden g (str it)\<rparr>\<rparr>) (items ds)"
    by simp
  with l show ?thesis by (simp add: dired_filter_files_def)
qed

text \<open>
  C1. For every entry the filter processes, the hidden flag it stores is the disjunction of two
  conditions: the string starts with a dot and dot-files are not shown; or the string is exactly
  \<^verbatim>\<open>.DS_Store\<close> and system files are not shown, whatever the dot-file setting. The last
  conjunct is the particular case: with system files not shown, \<^verbatim>\<open>.DS_Store\<close> is hidden for
  every dot-file setting. (The code tests the string of the list entry, which the scanner copies
  from the same base name as the item's name.)
\<close>

theorem dired_filter_hidden_is_or:
  "map (\<lambda>it. hidden (opaque it)) (items (dired_filter_files g ds)) =
     map (\<lambda>it. (first_is_dot (str it) \<and> dired_show_dot_files g = 0)
               \<or> (str it = ''.DS_Store'' \<and> dired_show_ds_store g = 0)) (items ds)
   \<and> filter_hidden (g\<lparr>dired_show_dot_files := d, dired_show_ds_store := 0\<rparr>) ''.DS_Store'' = True"
proof -
  have h: "filter_hidden g p =
     ((first_is_dot p \<and> dired_show_dot_files g = 0)
      \<or> (p = ''.DS_Store'' \<and> dired_show_ds_store g = 0))" for g p
    by (auto simp: filter_hidden_def first_is_dot_def strequal_def)
  have "map (\<lambda>it. hidden (opaque it)) (items (dired_filter_files g ds)) =
          map (\<lambda>it. filter_hidden g (str it)) (items ds)"
    by (simp add: dired_filter_files_items comp_def)
  then show ?thesis by (simp add: h)
qed

theorem dired_filter_hidden_is_or_witness:
  "map (\<lambda>it. hidden (opaque it))
     (items (dired_filter_files (example_globals\<lparr>dired_show_dot_files := 1\<rparr>)
        (example_state\<lparr>items := [example_ds_store, example_dotfile, example_file]\<rparr>)))
     = [True, False, False]
   \<and> map (\<lambda>it. hidden (opaque it))
     (items (dired_filter_files example_globals
        (example_state\<lparr>items := [example_ds_store, example_dotfile, example_file]\<rparr>)))
     = [True, True, False]"
  using dired_filter_hidden_is_or
          [of "example_globals\<lparr>dired_show_dot_files := 1\<rparr>"
              "example_state\<lparr>items := [example_ds_store, example_dotfile, example_file]\<rparr>"]
        dired_filter_hidden_is_or
          [of example_globals
              "example_state\<lparr>items := [example_ds_store, example_dotfile, example_file]\<rparr>"]
  by (simp add: example_defs example_ds_store_def first_is_dot_def)

text \<open>The counters of the filter, over the entries that the filter was given.\<close>

lemma dired_filter_files_counts:
  "ndirs (dired_filter_files g ds) = c_int_cast (int (length
       (filter (\<lambda>it. \<not> filter_hidden g (str it) \<and> is_dir_item it) (items ds))))
   \<and> ndirs_hidden (dired_filter_files g ds) = c_int_cast (int (length
       (filter (\<lambda>it. filter_hidden g (str it) \<and> is_dir_item it) (items ds))))
   \<and> nfiles (dired_filter_files g ds) = c_int_cast (int (length
       (filter (\<lambda>it. \<not> filter_hidden g (str it) \<and> \<not> is_dir_item it) (items ds))))
   \<and> nfiles_hidden (dired_filter_files g ds) = c_int_cast (int (length
       (filter (\<lambda>it. filter_hidden g (str it) \<and> \<not> is_dir_item it) (items ds))))
   \<and> total_bytes (dired_filter_files g ds) = c_ll_cast (sum_list (map (\<lambda>it. size (opaque it))
       (filter (\<lambda>it. \<not> filter_hidden g (str it) \<and> \<not> is_dir_item it) (items ds))))"
proof -
  let ?ds0 = "ds\<lparr>show_dot_files := dired_show_dot_files g,
                    show_ds_store := dired_show_ds_store g,
                    total_bytes := 0, ndirs := 0, nfiles := 0,
                    ndirs_hidden := 0, nfiles_hidden := 0\<rparr>"
  obtain its ds1 where l: "filter_loop g (items ds) ?ds0 = (its, ds1)"
    by (cases "filter_loop g (items ds) ?ds0")
  have z: "c_int_cast 0 = 0" "c_ll_cast 0 = 0" by (simp_all add: c_int_cast_def c_ll_cast_def)
  have r: "dired_filter_files g ds = ds1\<lparr>items := its\<rparr>"
    using l by (simp add: dired_filter_files_def)
  from filter_loop_counts [OF l] z show ?thesis unfolding r by simp
qed

lemma length_filter_split:
  "int (length (filter (\<lambda>x. \<not> P x \<and> Q x) xs)) + int (length (filter (\<lambda>x. P x \<and> Q x) xs))
     = int (length (filter Q xs))"
  by (induction xs) auto

text \<open>
  C5. The filter keeps the entries it is given, in their order, and changes only their hidden
  flags. For a list whose number of entries is an \<^verbatim>\<open>int\<close> (as \<^verbatim>\<open>nb_items\<close> is), the
  visible and hidden directory counters add up to the number of directory entries given, the
  visible and hidden file counters add up to the number of given entries that are not
  directories, and the visible counters count the entries that the filter leaves visible. The
  byte total is the sum of the sizes of the given entries that are left visible and are not
  directories, whenever this sum is in the range of \<^verbatim>\<open>long long\<close>.
\<close>

theorem dired_filter_files_aggregates:
  "items (dired_filter_files g ds) =
     map (\<lambda>it. it\<lparr>opaque := (opaque it)\<lparr>hidden := filter_hidden g (str it)\<rparr>\<rparr>) (items ds)
   \<and> (int (length (items ds)) < 2 ^ 31 \<longrightarrow>
        ndirs (dired_filter_files g ds) + ndirs_hidden (dired_filter_files g ds) =
          int (length (filter is_dir_item (items ds)))
        \<and> nfiles (dired_filter_files g ds) + nfiles_hidden (dired_filter_files g ds) =
          int (length (filter (\<lambda>it. \<not> is_dir_item it) (items ds)))
        \<and> ndirs (dired_filter_files g ds) =
          int (length (filter (\<lambda>it. \<not> filter_hidden g (str it) \<and> is_dir_item it) (items ds)))
        \<and> nfiles (dired_filter_files g ds) =
          int (length (filter (\<lambda>it. \<not> filter_hidden g (str it) \<and> \<not> is_dir_item it) (items ds))))
   \<and> sum_list (map (\<lambda>it. size (opaque it)) (visible_files (items (dired_filter_files g ds))))
       = sum_list (map (\<lambda>it. size (opaque it))
           (filter (\<lambda>it. \<not> filter_hidden g (str it) \<and> \<not> is_dir_item it) (items ds)))
   \<and> (- (2 ^ 63) \<le> sum_list (map (\<lambda>it. size (opaque it))
                        (visible_files (items (dired_filter_files g ds))))
      \<and> sum_list (map (\<lambda>it. size (opaque it))
                        (visible_files (items (dired_filter_files g ds)))) < 2 ^ 63 \<longrightarrow>
        total_bytes (dired_filter_files g ds) =
          sum_list (map (\<lambda>it. size (opaque it))
            (visible_files (items (dired_filter_files g ds)))))"
proof -
  let ?upd = "\<lambda>it. it\<lparr>opaque := (opaque it)\<lparr>hidden := filter_hidden g (str it)\<rparr>\<rparr>"
  let ?r = "dired_filter_files g ds"
  note c = dired_filter_files_counts [of g ds]
  have b: "sum_list (map (\<lambda>it. size (opaque it)) (visible_files (map ?upd xs)))
           = sum_list (map (\<lambda>it. size (opaque it))
             (filter (\<lambda>it. \<not> filter_hidden g (str it) \<and> \<not> is_dir_item it) xs))" for xs
    by (induction xs) (simp_all add: is_dir_item_def visible_files_def)
  have le: "int (length (filter P (items ds))) \<le> int (length (items ds))" for P
    by simp
  have small: "int (length (items ds)) < 2 ^ 31 \<Longrightarrow>
                 c_int_cast (int (length (filter P (items ds)))) = int (length (filter P (items ds)))" for P
    using le [of P] by (intro c_int_cast_small) linarith+
  have i: "items ?r = map ?upd (items ds)" by (rule dired_filter_files_items)
  have s: "sum_list (map (\<lambda>it. size (opaque it)) (visible_files (items ?r)))
       = sum_list (map (\<lambda>it. size (opaque it))
           (filter (\<lambda>it. \<not> filter_hidden g (str it) \<and> \<not> is_dir_item it) (items ds)))"
    unfolding i by (rule b)
  have n: "int (length (items ds)) < 2 ^ 31 \<Longrightarrow>
        ndirs ?r + ndirs_hidden ?r = int (length (filter is_dir_item (items ds)))
        \<and> nfiles ?r + nfiles_hidden ?r = int (length (filter (\<lambda>it. \<not> is_dir_item it) (items ds)))
        \<and> ndirs ?r =
          int (length (filter (\<lambda>it. \<not> filter_hidden g (str it) \<and> is_dir_item it) (items ds)))
        \<and> nfiles ?r =
          int (length (filter (\<lambda>it. \<not> filter_hidden g (str it) \<and> \<not> is_dir_item it) (items ds)))"
    using c length_filter_split [of "\<lambda>it. filter_hidden g (str it)" is_dir_item "items ds"]
      length_filter_split [of "\<lambda>it. filter_hidden g (str it)" "\<lambda>it. \<not> is_dir_item it" "items ds"]
    by (simp add: small)
  have t: "- (2 ^ 63) \<le> sum_list (map (\<lambda>it. size (opaque it)) (visible_files (items ?r)))
      \<and> sum_list (map (\<lambda>it. size (opaque it)) (visible_files (items ?r))) < 2 ^ 63 \<Longrightarrow>
        total_bytes ?r = sum_list (map (\<lambda>it. size (opaque it)) (visible_files (items ?r)))"
    using c unfolding s by (simp add: c_ll_cast_small)
  from i s n t show ?thesis by blast
qed


theorem dired_filter_files_aggregates_witness:
  "ndirs (dired_filter_files example_globals example_state)
     + ndirs_hidden (dired_filter_files example_globals example_state) = 1
   \<and> nfiles (dired_filter_files example_globals example_state)
     + nfiles_hidden (dired_filter_files example_globals example_state) = 2
   \<and> ndirs (dired_filter_files example_globals example_state) = 1
   \<and> nfiles (dired_filter_files example_globals example_state) = 1
   \<and> total_bytes (dired_filter_files example_globals example_state) = 100"
  using dired_filter_files_aggregates [of example_globals example_state]
  by (simp add: dired_filter_files_items example_defs is_dir_item_def filter_hidden_def
      first_is_dot_def S_ISDIR_def S_IFMT_def S_IFDIR_def visible_files_def)

text \<open>
  Without the bound on the sum the byte total differs from the sum: two visible regular files
  of \<open>2\<^sup>6\<^sup>2\<close> bytes each (sparse files can have this size) have \<open>2\<^sup>6\<^sup>3\<close> bytes together,
  which a \<^verbatim>\<open>long long\<close> cannot hold.
\<close>

theorem dired_filter_files_overflow_counterexample:
  "sum_list (map (\<lambda>it. size (opaque it))
     (visible_files (items (dired_filter_files example_globals
        (example_state\<lparr>items := [example_huge, example_huge]\<rparr>))))) = 2 ^ 63
   \<and> total_bytes (dired_filter_files example_globals
        (example_state\<lparr>items := [example_huge, example_huge]\<rparr>)) = - (2 ^ 63)"
  by (simp add: dired_filter_files_def filter_step_def Let_def example_defs example_huge_def
      is_dir_item_def filter_hidden_def first_is_dot_def S_ISDIR_def S_IFMT_def S_IFDIR_def
      visible_files_def c_int_cast_def c_ll_cast_def)

subsection \<open>The comparator\<close>

lemma and_pow2_test: "(x AND 2 ^ k \<noteq> 0) = bit x k" for x :: cint
  by (simp add: and_exp_eq_0_iff_not_bit)

lemma test_group: "(sm AND DIRED_SORT_GROUP \<noteq> 0) = bit sm 4" for sm :: cint
proof -
  have e: "DIRED_SORT_GROUP = (2 ^ 4 :: cint)" by (simp add: DIRED_SORT_GROUP_def)
  show ?thesis unfolding e by (rule and_pow2_test)
qed

lemma test_desc: "(sm AND DIRED_SORT_DESCENDING \<noteq> 0) = bit sm 5" for sm :: cint
proof -
  have e: "DIRED_SORT_DESCENDING = (2 ^ 5 :: cint)" by (simp add: DIRED_SORT_DESCENDING_def)
  show ?thesis unfolding e by (rule and_pow2_test)
qed

lemma test_date: "(sm AND DIRED_SORT_DATE \<noteq> 0) = bit sm 3" for sm :: cint
proof -
  have e: "DIRED_SORT_DATE = (2 ^ 3 :: cint)" by (simp add: DIRED_SORT_DATE_def)
  show ?thesis unfolding e by (rule and_pow2_test)
qed

lemma test_size: "(sm AND DIRED_SORT_SIZE \<noteq> 0) = bit sm 2" for sm :: cint
proof -
  have e: "DIRED_SORT_SIZE = (2 ^ 2 :: cint)" by (simp add: DIRED_SORT_SIZE_def)
  show ?thesis unfolding e by (rule and_pow2_test)
qed

lemma test_ext: "(sm AND DIRED_SORT_EXTENSION \<noteq> 0) = bit sm 1" for sm :: cint
proof -
  have e: "DIRED_SORT_EXTENSION = (2 ^ 1 :: cint)" by (simp add: DIRED_SORT_EXTENSION_def)
  show ?thesis unfolding e by (rule and_pow2_test)
qed

lemma bit_xor_pow2:
  "k < 32 \<Longrightarrow> bit (x XOR 2 ^ k) n = (if n = k then \<not> bit x k else bit x n)" for x :: cint
  by (auto simp add: bit_xor_iff bit_exp_iff dest: bit_imp_le_length)

lemma bit_flip_desc:
  "bit (sm XOR DIRED_SORT_DESCENDING) n = (if n = 5 then \<not> bit sm 5 else bit sm n)" for sm :: cint
  using bit_xor_pow2 [of 5 sm n] by (simp add: DIRED_SORT_DESCENDING_def)

text \<open>The keys do not look at the descending bit.\<close>

lemma sort_keys_flip: "sort_keys h (sm XOR DIRED_SORT_DESCENDING) a b = sort_keys h sm a b"
  unfolding sort_keys_def test_date test_size test_ext by (simp add: bit_flip_desc)

text \<open>
  C2. With grouping enabled, a directory compares before a non-directory (result \<open>-1\<close>, and
  \<open>1\<close> the other way round) for every sort mode, and toggling the descending bit leaves that
  result as it is. For two entries of the same kind the result is the key comparison, negated
  exactly when the descending bit is set, so toggling the bit negates it. (The collation is a
  parameter with results in \<^typ>\<open>int\<close>; the negation of C's most negative \<^verbatim>\<open>int\<close> is outside
  the model.)
\<close>

theorem dired_sort_func_group_first:
  "sort_mode ds AND DIRED_SORT_GROUP \<noteq> 0 \<Longrightarrow>
     (S_ISDIR (mode (opaque a)) \<and> \<not> S_ISDIR (mode (opaque b)) \<longrightarrow>
        dired_sort_func h ds a b = - 1 \<and> dired_sort_func h ds b a = 1
        \<and> dired_sort_func h (ds\<lparr>sort_mode := sort_mode ds XOR DIRED_SORT_DESCENDING\<rparr>) a b = - 1
        \<and> dired_sort_func h (ds\<lparr>sort_mode := sort_mode ds XOR DIRED_SORT_DESCENDING\<rparr>) b a = 1)
   \<and> (S_ISDIR (mode (opaque a)) = S_ISDIR (mode (opaque b)) \<longrightarrow>
        dired_sort_func h (ds\<lparr>sort_mode := sort_mode ds XOR DIRED_SORT_DESCENDING\<rparr>) a b
          = - dired_sort_func h ds a b
        \<and> dired_sort_func h ds a b =
            (if sort_mode ds AND DIRED_SORT_DESCENDING \<noteq> 0
             then - sort_keys h (sort_mode ds) (opaque a) (opaque b)
             else sort_keys h (sort_mode ds) (opaque a) (opaque b)))"
  by (simp add: dired_sort_func_def Let_def sort_keys_flip test_group test_desc bit_flip_desc)

theorem dired_sort_func_group_first_witness:
  "sort_mode example_state AND DIRED_SORT_GROUP \<noteq> 0
   \<and> S_ISDIR (mode (opaque example_dir)) \<and> \<not> S_ISDIR (mode (opaque example_file))
   \<and> dired_sort_func example_host example_state example_dir example_file = - 1
   \<and> dired_sort_func example_host example_state example_file example_dir = 1
   \<and> dired_sort_func example_host
        (example_state\<lparr>sort_mode := sort_mode example_state XOR DIRED_SORT_DESCENDING\<rparr>)
        example_dir example_file = - 1
   \<and> dired_sort_func example_host example_state example_file example_dotfile = 1
   \<and> dired_sort_func example_host
        (example_state\<lparr>sort_mode := sort_mode example_state XOR DIRED_SORT_DESCENDING\<rparr>)
        example_file example_dotfile = - 1"
proof -
  have g: "sort_mode example_state AND DIRED_SORT_GROUP \<noteq> 0"
    by (simp add: example_defs DIRED_SORT_GROUP_def)
  have d: "S_ISDIR (mode (opaque example_dir))" "\<not> S_ISDIR (mode (opaque example_file))"
     "\<not> S_ISDIR (mode (opaque example_dotfile))"
    by (simp_all add: example_defs S_ISDIR_def S_IFMT_def S_IFDIR_def)
  have k: "dired_sort_func example_host example_state example_file example_dotfile = 1"
    by (simp add: dired_sort_func_def sort_keys_def Let_def example_defs S_ISDIR_def S_IFMT_def
        S_IFDIR_def DIRED_SORT_GROUP_def DIRED_SORT_DESCENDING_def DIRED_SORT_DATE_def
        DIRED_SORT_SIZE_def DIRED_SORT_EXTENSION_def)
  from dired_sort_func_group_first [OF g, of example_dir example_file example_host]
       dired_sort_func_group_first [OF g, of example_file example_dotfile example_host]
  show ?thesis using g d k by simp
qed

subsection \<open>The permission string\<close>

lemmas mode_defs = S_ISREG_def S_ISDIR_def S_ISBLK_def S_ISCHR_def S_ISFIFO_def S_ISSOCK_def
  S_ISLNK_def S_IFMT_def S_IFSOCK_def S_IFLNK_def S_IFREG_def S_IFBLK_def S_IFDIR_def
  S_IFCHR_def S_IFIFO_def S_ISUID_def S_ISGID_def S_ISVTX_def S_IRUSR_def S_IWUSR_def
  S_IXUSR_def S_IRGRP_def S_IWGRP_def S_IXGRP_def S_IROTH_def S_IWOTH_def S_IXOTH_def

lemma length_put_if [simp]: "length (put_if c i ch a) = length a"
  by (simp add: put_if_def)

lemma nth_put_if_other: "i \<noteq> j \<Longrightarrow> put_if c i ch a ! j = a ! j"
  by (simp add: put_if_def)

lemma nth_put_if_same: "i < length a \<Longrightarrow> put_if c i ch a ! i = (if c then ch else a ! i)"
  by (simp add: put_if_def)

text \<open>The string has ten characters for every mode.\<close>

lemma length_compute_attr: "length (compute_attr m) = 10"
  by (simp add: compute_attr_def Let_def)

text \<open>
  With the sticky bit set, the sticky glyph is at index 6, the group-execute position, and
  index 9 keeps the plain other-execute character, for every mode.
\<close>

lemma compute_attr_sticky_index:
  "m AND S_ISVTX \<noteq> 0 \<Longrightarrow>
     compute_attr m ! 6 = (if m AND S_IXOTH \<noteq> 0 then CHR ''t'' else CHR ''T'')
   \<and> compute_attr m ! 9 = (if m AND S_IXOTH \<noteq> 0 then CHR ''x'' else CHR ''-'')"
  by (simp add: compute_attr_def Let_def nth_put_if_other nth_put_if_same)

text \<open>
  C3. The string has ten characters, but for the mode of a world-writable sticky directory
  (octal 041777) the code gives \<^verbatim>\<open>drwxrwtrwx\<close>: the glyph \<^verbatim>\<open>t\<close> is at index 6 and index 9
  holds \<^verbatim>\<open>x\<close>, where the claim places the sticky glyph at position 9 (\<^verbatim>\<open>drwxrwxrwt\<close>).
\<close>

theorem compute_attr_sticky_at_index_6:
  "compute_attr 0x43FF = ''drwxrwtrwx''
   \<and> length (compute_attr 0x43FF) = 10
   \<and> compute_attr 0x43FF ! 6 = CHR ''t''
   \<and> compute_attr 0x43FF ! 9 = CHR ''x''"
  by (simp add: compute_attr_def Let_def mode_defs put_if_def)

subsection \<open>The size formatter\<close>

lemma c_div_nonneg: "0 \<le> a \<Longrightarrow> 0 < b \<Longrightarrow> c_div a b = a div b"
  by (simp add: c_div_def sgn_if)

lemma c_mod_nonneg: "0 \<le> a \<Longrightarrow> 0 < b \<Longrightarrow> c_mod a b = a mod b"
  by (simp add: c_mod_def c_div_nonneg minus_mult_div_eq_mod)

lemma length_digits_of_nat: "0 < k \<Longrightarrow> n < 10 ^ k \<Longrightarrow> length (digits_of_nat n) \<le> k"
proof (induction k arbitrary: n)
  case 0
  then show ?case by simp
next
  case (Suc k)
  show ?case
  proof (cases "n < 10")
    case True
    then show ?thesis by (simp add: digits_of_nat.simps [of n])
  next
    case False
    then have k: "0 < k" using Suc.prems by (cases k) auto
    have "n div 10 < 10 ^ k" using Suc.prems by (simp add: less_mult_imp_div_less mult.commute)
    from Suc.IH [OF k this] False show ?thesis by (simp add: digits_of_nat.simps [of n])
  qed
qed

lemma snprintf_out_fits: "int (length s) < sz \<Longrightarrow> snprintf_out sz s = (s, int (length s))"
  by (simp add: snprintf_out_def)

text \<open>A non-negative \<^verbatim>\<open>off_t\<close> has at most 19 digits.\<close>

lemma length_show_int_off_t: "0 \<le> n \<Longrightarrow> n < 2 ^ 63 \<Longrightarrow> length (show_int n) \<le> 19"
proof -
  assume a: "0 \<le> n" "n < 2 ^ 63"
  then have "nat n < 10 ^ 19" by simp
  then have "length (digits_of_nat (nat n)) \<le> 19" by (intro length_digits_of_nat) simp_all
  with a show ?thesis by (simp add: show_int_def)
qed

lemma length_show_int_small: "0 \<le> n \<Longrightarrow> n < 1000 \<Longrightarrow> length (show_int n) \<le> 3"
proof -
  assume a: "0 \<le> n" "n < 1000"
  then have "nat n < 10 ^ 3" by simp
  then have "length (digits_of_nat (nat n)) \<le> 3" by (intro length_digits_of_nat) simp_all
  with a show ?thesis by (simp add: show_int_def)
qed

lemma plain_suffix:
  assumes "0 \<le> n" "n < 1000" "5 \<le> sz"
  shows "snprintf_out sz (show_int (c_int_cast n) @ [c])
           = (show_int n @ [c], int (length (show_int n)) + 1)"
proof -
  have c: "c_int_cast n = n" using assms by (intro c_int_cast_small) simp_all
  have "length (show_int n) \<le> 3" using assms by (intro length_show_int_small)
  then have "int (length (show_int n @ [c])) < sz" using assms by simp
  then show ?thesis by (simp add: snprintf_out_fits c)
qed

text \<open>
  C4, as amended. For a byte count \<open>n\<close> of the range of a non-negative \<^verbatim>\<open>off_t\<close> and a buffer
  of at least 21 bytes (the callers pass 32 bytes or more): the exact mode prints the decimal
  count; both human modes print the count followed by \<^verbatim>\<open>B\<close> below 1000 and leave that form
  at 1000; the metric mode (\<open>human = 2\<close>) prints one digit, a point, one digit and \<^verbatim>\<open>k\<close> from
  1000 to 9999 and divides by 1000 from 10000 on; the 1024-based mode (\<open>human = 1\<close>) prints one
  digit, a point, one digit and \<^verbatim>\<open>K\<close> from 1000 to 10199 and divides by 1024 from 10200 on.
\<close>

theorem format_number_thresholds:
  "0 \<le> n \<Longrightarrow> n < 2 ^ 63 \<Longrightarrow> 21 \<le> sz \<Longrightarrow>
     format_number sz 0 n = (show_int n, int (length (show_int n)))
   \<and> (n < 1000 \<longrightarrow>
        format_number sz 2 n = (show_int n @ ''B'', int (length (show_int n)) + 1)
      \<and> format_number sz 1 n = (show_int n @ ''B'', int (length (show_int n)) + 1))
   \<and> (1000 \<le> n \<and> n < 10000 \<longrightarrow>
        format_number sz 2 n =
          ([digit_char (n div 1000), CHR ''.'', digit_char (n div 100 mod 10), CHR ''k''], 4))
   \<and> (1000 \<le> n \<and> n < 10200 \<longrightarrow>
        format_number sz 1 n =
          ([digit_char (n div 1020), CHR ''.'', digit_char (n div 102 mod 10), CHR ''K''], 4))
   \<and> (10000 \<le> n \<longrightarrow> format_number sz 2 n = format_metric sz ''kMGTPEZY'' (n div 1000))
   \<and> (10200 \<le> n \<longrightarrow> format_number sz 1 n = format_geek sz ''KMGTPEZY'' (n div 1024))"
proof -
  assume n: "0 \<le> n" "n < 2 ^ 63" and sz: "21 \<le> sz"
  have "length (show_int n) \<le> 19" using n by (rule length_show_int_off_t)
  then have "int (length (show_int n)) < sz" using sz by simp
  then have exact: "format_number sz 0 n = (show_int n, int (length (show_int n)))"
    by (simp add: format_number_def snprintf_out_fits)
  have plain: "format_number sz 2 n = (show_int n @ ''B'', int (length (show_int n)) + 1)
      \<and> format_number sz 1 n = (show_int n @ ''B'', int (length (show_int n)) + 1)" if "n < 1000"
    using that n sz by (simp add: format_number_def plain_suffix)
  have q: "0 \<le> n div 100" "0 \<le> n div 102" using n by (simp_all add: pos_imp_zdiv_nonneg_iff)
  have dec: "format_number sz 2 n =
          ([digit_char (n div 1000), CHR ''.'', digit_char (n div 100 mod 10), CHR ''k''], 4)"
    if "1000 \<le> n \<and> n < 10000"
    using that q by (simp add: format_number_def c_div_nonneg c_mod_nonneg)
  have bin: "format_number sz 1 n =
          ([digit_char (n div 1020), CHR ''.'', digit_char (n div 102 mod 10), CHR ''K''], 4)"
    if "1000 \<le> n \<and> n < 10200"
    using that q by (simp add: format_number_def c_div_nonneg c_mod_nonneg)
  have decstep: "format_number sz 2 n = format_metric sz ''kMGTPEZY'' (n div 1000)" if "10000 \<le> n"
    using that by (simp add: format_number_def c_div_nonneg)
  have binstep: "format_number sz 1 n = format_geek sz ''KMGTPEZY'' (n div 1024)" if "10200 \<le> n"
    using that by (simp add: format_number_def drop_bit_eq_div)
  from exact plain dec bin decstep binstep show ?thesis by blast
qed

theorem format_number_thresholds_witness:
  "(0::int) \<le> 999 \<and> (999::int) < 2 ^ 63 \<and> (21::int) \<le> 32
   \<and> format_number 32 0 999 = (''999'', 3)
   \<and> format_number 32 2 999 = (''999B'', 4)
   \<and> format_number 32 1 999 = (''999B'', 4)
   \<and> format_number 32 2 1000 = (''1.0k'', 4)
   \<and> format_number 32 1 1000 = (''0.9K'', 4)"
  using format_number_thresholds [of 999 32] format_number_thresholds [of 1000 32]
  by (simp add: show_int_def digits_of_nat.simps digit_char_def)

text \<open>
  The claim as stated fails: the 1024-based mode does not keep the plain \<^verbatim>\<open>B\<close> form up to
  1024; the count 1000 is already printed as \<^verbatim>\<open>0.9K\<close>.
\<close>

theorem format_number_binary_threshold_counterexample:
  "(0::int) \<le> 1000 \<and> (1000::int) < 1024
   \<and> format_number 32 1 1000 = (''0.9K'', 4)
   \<and> fst (format_number 32 1 1000) \<noteq> show_int 1000 @ ''B''
   \<and> format_number 32 1 1023 = (''1.0K'', 4)"
  by (simp add: format_number_def c_div_def c_mod_def digit_char_def show_int_def
      digits_of_nat.simps)

subsection \<open>Writing to the buffer\<close>

lemma cur_style_written [simp]: "cur_style (written b t) = cur_style b"
  by (simp add: written_def)

lemma b_text_written [simp]: "b_text (written b t) = b_text b @ t"
  by (simp add: written_def)

lemma written_written [simp]: "written (written b t) u = written b (t @ u)"
  by (simp add: written_def)

lemma written_style [simp]: "(written b t)\<lparr>cur_style := c\<rparr> = written (b\<lparr>cur_style := c\<rparr>) t"
  by (simp add: written_def)

lemma written_nil [simp]: "written b [] = b"
  by (simp add: written_def)

lemma styled_append [simp]: "styled st (s @ t) = styled st s @ styled st t"
  by (simp add: styled_def)

lemma styled_Cons [simp]: "styled st (c # s) = (st, c) # styled st s"
  by (simp add: styled_def)

lemma styled_nil [simp]: "styled st [] = []"
  by (simp add: styled_def)

lemma length_styled [simp]: "length (styled st s) = length s"
  by (simp add: styled_def)

lemma eb_puts_written: "eb_puts b s = (written b (styled (cur_style b) s), int (length s))"
  by (simp add: eb_puts_def written_def styled_def)

lemma eb_printf_written: "eb_printf b s = (written b (styled (cur_style b) s), int (length s))"
  by (simp add: eb_printf_def eb_puts_written)

lemma eb_putc_written: "eb_putc b c = (written b (styled (cur_style b) [c]), 1)"
  by (simp add: eb_putc_def eb_puts_written)

lemma emit_if_written:
  "emit_if c (written b t, col) s =
     (written b (t @ styled (cur_style b) (col_if c s)), col + int (length (col_if c s)))"
  by (simp add: emit_if_def emit_def eb_printf_written col_if_def)

lemma style_same: "cur_style b = c \<Longrightarrow> b\<lparr>cur_style := c\<rparr> = b"
  by simp

subsection \<open>The rows of the listing\<close>

lemma row_columns_written:
  assumes n: "cur_style b = DIRED_STYLE_NORMAL"
  shows "row_columns h ds dip b blocks date =
     (written b (styled DIRED_STYLE_NORMAL
        ([mark dip, CHR '' '']
            @ col_if (shown (details_mask ds) DIRED_SHOW_BLOCKS)
                (printf_d (blockslen ds) blocks @ '' '')
            @ col_if (shown (details_mask ds) DIRED_SHOW_MODE) (compute_attr (mode dip) @ '' '')
            @ col_if (shown (details_mask ds) DIRED_SHOW_LINKS)
                (printf_d (linklen ds) (c_int_cast (uint (nlink dip))) @ '' '')
            @ col_if (shown (details_mask ds) DIRED_SHOW_UID)
                (pad_right (uidlen ds)
                   (fst (format_uid h (MAX_FILENAME_SIZE h) (nflag ds) (uid dip))) @ '' '')
            @ col_if (shown (details_mask ds) DIRED_SHOW_GID)
                (pad_right (gidlen ds)
                   (fst (format_gid h (MAX_FILENAME_SIZE h) (nflag ds) (gid dip))) @ '' '')
            @ col_if (shown (details_mask ds) DIRED_SHOW_SIZE)
                ('' '' @ pad_left (sizelen ds) (CHR '' '')
                   (fst (format_size (MAX_FILENAME_SIZE h) (hflag ds) (mode dip) (rdev dip)
                          (size dip))) @ ''  '')
            @ col_if (shown (details_mask ds) DIRED_SHOW_DATE) (fst date @ ''  ''))),
      int (length
        ([mark dip, CHR '' '']
            @ col_if (shown (details_mask ds) DIRED_SHOW_BLOCKS)
                (printf_d (blockslen ds) blocks @ '' '')
            @ col_if (shown (details_mask ds) DIRED_SHOW_MODE) (compute_attr (mode dip) @ '' '')
            @ col_if (shown (details_mask ds) DIRED_SHOW_LINKS)
                (printf_d (linklen ds) (c_int_cast (uint (nlink dip))) @ '' '')
            @ col_if (shown (details_mask ds) DIRED_SHOW_UID)
                (pad_right (uidlen ds)
                   (fst (format_uid h (MAX_FILENAME_SIZE h) (nflag ds) (uid dip))) @ '' '')
            @ col_if (shown (details_mask ds) DIRED_SHOW_GID)
                (pad_right (gidlen ds)
                   (fst (format_gid h (MAX_FILENAME_SIZE h) (nflag ds) (gid dip))) @ '' '')
            @ col_if (shown (details_mask ds) DIRED_SHOW_SIZE)
                ('' '' @ pad_left (sizelen ds) (CHR '' '')
                   (fst (format_size (MAX_FILENAME_SIZE h) (hflag ds) (mode dip) (rdev dip)
                          (size dip))) @ ''  '')
            @ col_if (shown (details_mask ds) DIRED_SHOW_DATE) (fst date @ ''  ''))))"
proof -
  have w: "eb_printf b s = (written b (styled DIRED_STYLE_NORMAL s), int (length s))" for s
    by (simp add: eb_printf_written n)
  have e: "emit_if c (written b t, col) s =
     (written b (t @ styled DIRED_STYLE_NORMAL (col_if c s)), col + int (length (col_if c s)))"
    for c t col s
    by (simp add: emit_if_written n)
  show ?thesis
    unfolding row_columns_def Let_def w e shown_def
    by simp
qed

lemma row_name_write_written:
  "row_name_write h ds dip (written b t) =
     written (b\<lparr>cur_style := DIRED_STYLE_NORMAL\<rparr>)
       (t @ styled (if S_ISDIR (mode dip) then DIRED_STYLE_DIRECTORY else DIRED_STYLE_FILENAME)
              (row_name h ds dip)
          @ styled DIRED_STYLE_NORMAL [CHR 0x0A])"
  unfolding row_name_write_def row_name_def
  by (simp add: Let_def eb_puts_written eb_putc_written eb_printf_written split: option.split)

lemma dired_row_written:
  assumes n: "cur_style b = DIRED_STYLE_NORMAL"
  shows "dired_row h g ds dip b =
     (case row_cells h g ds dip of
        None \<Rightarrow> None
      | Some cells \<Rightarrow>
          Some (written b
                  (styled DIRED_STYLE_NORMAL cells
                   @ styled (if S_ISDIR (mode dip) then DIRED_STYLE_DIRECTORY
                             else DIRED_STYLE_FILENAME) (row_name h ds dip)
                   @ styled DIRED_STYLE_NORMAL [CHR 0x0A]),
                int (length cells) - 1))"
proof -
  have k: "b\<lparr>cur_style := DIRED_STYLE_NORMAL\<rparr> = b" using n by simp
  show ?thesis
    unfolding dired_row_def row_cells_def row_columns_written [OF n] Let_def fst_conv snd_conv
      row_name_write_written k
    by (simp add: shown_def split: option.split)
qed

text \<open>The row of an item in terms of \<open>row_text\<close>.\<close>

lemma dired_row_text:
  "cur_style b = DIRED_STYLE_NORMAL \<Longrightarrow>
     map_option fst (dired_row h g ds dip b) = map_option (written b) (row_text h g ds dip)"
  by (simp add: dired_row_written row_text_def split: option.split)

lemma dired_row_style:
  "cur_style b = DIRED_STYLE_NORMAL \<Longrightarrow> dired_row h g ds dip b = Some r \<Longrightarrow>
     cur_style (fst r) = DIRED_STYLE_NORMAL"
  by (auto simp: dired_row_written split: option.splits)

lemma item_blocks_ds:
  "item_blocks (ds\<lparr>last_cur := x\<rparr>) dip = item_blocks ds dip"
  "item_blocks (ds\<lparr>fnamecol := y\<rparr>) dip = item_blocks ds dip"
  "item_blocks ds (dip\<lparr>offset := z\<rparr>) = item_blocks ds dip"
  by (auto simp: item_blocks_def Let_def)

lemma row_cells_ds:
  "row_cells h g (ds\<lparr>last_cur := x\<rparr>) dip = row_cells h g ds dip"
  "row_cells h g (ds\<lparr>fnamecol := y\<rparr>) dip = row_cells h g ds dip"
  "row_cells h g ds (dip\<lparr>offset := z\<rparr>) = row_cells h g ds dip"
  unfolding row_cells_def item_blocks_ds by (simp_all cong: option.case_cong)

lemma row_name_ds:
  "row_name h (ds\<lparr>last_cur := x\<rparr>) dip = row_name h ds dip"
  "row_name h (ds\<lparr>fnamecol := y\<rparr>) dip = row_name h ds dip"
  "row_name h ds (dip\<lparr>offset := z\<rparr>) = row_name h ds dip"
  by (simp_all add: row_name_def)

lemma row_text_ds:
  "row_text h g (ds\<lparr>last_cur := x\<rparr>) dip = row_text h g ds dip"
  "row_text h g (ds\<lparr>fnamecol := y\<rparr>) dip = row_text h g ds dip"
  "row_text h g ds (dip\<lparr>offset := z\<rparr>) = row_text h g ds dip"
  unfolding row_text_def row_cells_ds row_name_ds by simp_all

lemma rows_text_ds:
  "rows_text h g (ds\<lparr>last_cur := x\<rparr>) xs = rows_text h g ds xs"
  "rows_text h g (ds\<lparr>fnamecol := y\<rparr>) xs = rows_text h g ds xs"
  by (induction xs) (simp_all add: row_text_ds split: option.split)

text \<open>The loop appends the rows of the items that are not hidden, and has a result exactly when every one of these rows has one.\<close>

lemma render_loop_written:
  "cur_style b = DIRED_STYLE_NORMAL \<Longrightarrow>
     map_option (\<lambda>r. fst (snd (snd r))) (render_loop h g cur xs ds b s)
       = map_option (written b) (rows_text h g ds xs)"
proof (induction xs arbitrary: ds b s cur)
  case Nil
  show ?case by simp
next
  case (Cons it rest)
  let ?dip = "(opaque it)\<lparr>offset := b_offset b\<rparr>"
  let ?ds = "if cur = Some (addr ?dip) then ds\<lparr>last_cur := Some (addr ?dip)\<rparr> else ds"
  let ?s = "if cur = Some (addr ?dip) then map_option (\<lambda>e. e\<lparr>es_offset := b_offset b\<rparr>) s else s"
  have rt: "rows_text h g ?ds rest = rows_text h g ds rest" by (simp add: rows_text_ds)
  have ro: "row_text h g ?ds ?dip = row_text h g ds (opaque it)" by (simp add: row_text_ds)
  show ?case
  proof (cases "hidden (opaque it)")
    case True
    have "map_option (\<lambda>r. fst (snd (snd r))) (render_loop h g cur (it # rest) ds b s)
            = map_option (\<lambda>r. fst (snd (snd r))) (render_loop h g cur rest ?ds b ?s)"
      using True by (simp add: Let_def option.map_comp comp_def)
    also have "\<dots> = map_option (written b) (rows_text h g ?ds rest)"
      by (rule Cons.IH [OF Cons.prems])
    finally show ?thesis using True by (simp add: rows_text_ds)
  next
    case False
    show ?thesis
    proof (cases "dired_row h g ?ds ?dip b")
      case None
      with dired_row_text [OF Cons.prems, of h g ?ds ?dip]
      have "row_text h g ds (opaque it) = None" by (simp add: row_text_ds split: if_splits)
      with None False show ?thesis by (simp add: Let_def)
    next
      case (Some row)
      from dired_row_text [OF Cons.prems, of h g ?ds ?dip] Some
      obtain t where t: "row_text h g ds (opaque it) = Some t" "fst row = written b t"
        by (cases "row_text h g ds (opaque it)") (simp_all add: row_text_ds split: if_splits)
      have st: "cur_style (fst row) = DIRED_STYLE_NORMAL"
        by (rule dired_row_style [OF Cons.prems Some])
      have "map_option (\<lambda>r. fst (snd (snd r))) (render_loop h g cur (it # rest) ds b s)
            = map_option (\<lambda>r. fst (snd (snd r)))
                (render_loop h g cur rest (?ds\<lparr>fnamecol := snd row\<rparr>) (fst row) ?s)"
        using False Some by (simp add: Let_def option.map_comp comp_def)
      also have "\<dots> = map_option (written (fst row)) (rows_text h g (?ds\<lparr>fnamecol := snd row\<rparr>) rest)"
        by (rule Cons.IH [OF st])
      also have "\<dots> = map_option (written b) (rows_text h g ds (it # rest))"
        using False t
        by (cases "rows_text h g ds rest") (simp_all add: rows_text_ds split: if_splits)
      finally show ?thesis .
    qed
  qed
qed

lemma length_col_if: "int (length (col_if c s)) = (if c then int (length s) else 0)"
  by (simp add: col_if_def)

lemma length_pad_left: "int (length s) \<le> w \<Longrightarrow> int (length (pad_left w ch s)) = w"
  by (simp add: pad_left_def)

lemma length_pad_right: "int (length s) \<le> w \<Longrightarrow> int (length (pad_right w s)) = w"
  by (simp add: pad_right_def)

lemma length_printf_d: "int (length (show_int n)) \<le> w \<Longrightarrow> int (length (printf_d w n)) = w"
  by (simp add: printf_d_def length_pad_left)

text \<open>
  For an item whose texts are as wide as the cached widths say, the cells of the row before the
  name are the two cells of the mark and the cells that \<open>printed_cost\<close> counts.
\<close>

lemma row_cells_width:
  assumes "texts_fit h g ds dip"
  shows "\<exists>cells. row_cells h g ds dip = Some cells
           \<and> int (length cells) = 2 + printed_cost ds (details_mask ds)"
proof -
  from assms obtain blocks date where
    b: "item_blocks ds dip = Some blocks" "int (length (show_int blocks)) \<le> blockslen ds"
    and d: "format_date h g (MAX_FILENAME_SIZE h) (mtime dip) (dired_time_format g) = Some date"
      "int (length (fst date)) = datelen ds"
    and m: "int (length (compute_attr (mode dip))) = modelen ds"
    and l: "int (length (show_int (c_int_cast (uint (nlink dip))))) \<le> linklen ds"
    and u: "int (length (fst (format_uid h (MAX_FILENAME_SIZE h) (nflag ds) (uid dip)))) \<le> uidlen ds"
    and gi: "int (length (fst (format_gid h (MAX_FILENAME_SIZE h) (nflag ds) (gid dip)))) \<le> gidlen ds"
    and s: "int (length (fst (format_size (MAX_FILENAME_SIZE h) (hflag ds) (mode dip) (rdev dip)
                             (size dip)))) \<le> sizelen ds"
    by (auto simp: texts_fit_def split: option.splits)
  have lb: "int (length (printf_d (blockslen ds) x)) = blockslen ds"
    if "int (length (show_int x)) \<le> blockslen ds" for x
    using that by (rule length_printf_d)
  show ?thesis
    unfolding row_cells_def b(1) d(1) printed_cost_def
    by (simp add: length_col_if length_printf_d [OF b(2)] length_printf_d [OF l]
        length_pad_right [OF u] length_pad_right [OF gi] length_pad_left [OF s] m d(2))
qed

text \<open>So the name of such an item starts \<open>1 + printed_cost\<close> cells into the line.\<close>

lemma dired_row_fnamecol:
  assumes "texts_fit h g ds dip" "cur_style b = DIRED_STYLE_NORMAL"
  shows "map_option snd (dired_row h g ds dip b) = Some (1 + printed_cost ds (details_mask ds))"
proof -
  from row_cells_width [OF assms(1)] obtain cells where
    c: "row_cells h g ds dip = Some cells"
       "int (length cells) = 2 + printed_cost ds (details_mask ds)"
    by auto
  show ?thesis unfolding dired_row_written [OF assms(2)] c(1) using c(2) by simp
qed

subsection \<open>The column layout\<close>

lemmas show_defs = DIRED_SHOW_BLOCKS_def DIRED_SHOW_MODE_def DIRED_SHOW_LINKS_def DIRED_SHOW_UID_def
  DIRED_SHOW_GID_def DIRED_SHOW_SIZE_def DIRED_SHOW_DATE_def DIRED_SHOW_ALL_def

text \<open>
  The bits of the automatic mask, column by column: each is set exactly when the budget that
  remains after subtracting the column is not negative.
\<close>

lemma details_auto_shown:
  "shown (details_auto ds w DIRED_SHOW_ALL) DIRED_SHOW_SIZE = (0 \<le> w - (sizelen ds + 2))"
  "shown (details_auto ds w DIRED_SHOW_ALL) DIRED_SHOW_DATE = (0 \<le> w - (sizelen ds + 2) - (datelen ds + 2))"
  "shown (details_auto ds w DIRED_SHOW_ALL) DIRED_SHOW_MODE =
     (0 \<le> w - (sizelen ds + 2) - (datelen ds + 2) - (modelen ds + 1))"
  "shown (details_auto ds w DIRED_SHOW_ALL) DIRED_SHOW_UID =
     (nflag ds \<noteq> 2 \<and> 0 \<le> w - (sizelen ds + 2) - (datelen ds + 2) - (modelen ds + 1) - (uidlen ds + 1))"
  "shown (details_auto ds w DIRED_SHOW_ALL) DIRED_SHOW_GID =
     (nflag ds \<noteq> 2 \<and> 0 \<le> w - (sizelen ds + 2) - (datelen ds + 2) - (modelen ds + 1) - (uidlen ds + 1) - (gidlen ds + 1))"
  "shown (details_auto ds w DIRED_SHOW_ALL) DIRED_SHOW_LINKS =
     (0 \<le> (if nflag ds = 2 then w - (sizelen ds + 2) - (datelen ds + 2) - (modelen ds + 1)
           else w - (sizelen ds + 2) - (datelen ds + 2) - (modelen ds + 1) - (uidlen ds + 1) - (gidlen ds + 1))
          - (linklen ds + 1))"
  "shown (details_auto ds w DIRED_SHOW_ALL) DIRED_SHOW_BLOCKS = False"
  unfolding details_auto_def Let_def shown_def show_defs
  by (simp_all split: if_splits)

lemma details_layout_auto:
  "details_flag ds = DIRED_DETAILS_AUTO \<Longrightarrow>
     details_layout ds width
       = details_auto ds (width - clamp_int (namelen ds) 16 40) DIRED_SHOW_ALL"
  by (simp add: details_layout_def Let_def DIRED_DETAILS_AUTO_def DIRED_DETAILS_HIDE_def)

lemma shown_zero: "shown 0 b = False"
  by (simp add: shown_def)

lemma example_state_auto: "details_flag example_state = DIRED_DETAILS_AUTO"
  by (simp add: example_state_def DIRED_DETAILS_AUTO_def)

lemma example_state_lens:
  "sizelen example_state = 4" "datelen example_state = 12" "modelen example_state = 10"
  "uidlen example_state = 5" "gidlen example_state = 5" "linklen example_state = 1"
  "blockslen example_state = 1" "namelen example_state = 7" "nflag example_state = 0"
  by (simp_all add: example_state_def)

text \<open>
  The columns that the automatic layout shows fit the budget in the layout's own count, which
  takes two cells beside the width of the size and of the date column and one beside each
  other width.
\<close>

lemma details_auto_fits:
  assumes "0 \<le> sizelen ds" "0 \<le> datelen ds" "0 \<le> modelen ds" "0 \<le> uidlen ds"
    "0 \<le> gidlen ds" "0 \<le> linklen ds"
  shows "(if shown (details_auto ds w DIRED_SHOW_ALL) DIRED_SHOW_SIZE then sizelen ds + 2 else 0)
   + (if shown (details_auto ds w DIRED_SHOW_ALL) DIRED_SHOW_DATE then datelen ds + 2 else 0)
   + (if shown (details_auto ds w DIRED_SHOW_ALL) DIRED_SHOW_MODE then modelen ds + 1 else 0)
   + (if shown (details_auto ds w DIRED_SHOW_ALL) DIRED_SHOW_UID then uidlen ds + 1 else 0)
   + (if shown (details_auto ds w DIRED_SHOW_ALL) DIRED_SHOW_GID then gidlen ds + 1 else 0)
   + (if shown (details_auto ds w DIRED_SHOW_ALL) DIRED_SHOW_LINKS then linklen ds + 1 else 0)
   \<le> max 0 w"
  unfolding details_auto_shown using assms by (simp split: if_splits)

lemma printed_cost_auto:
  "printed_cost ds (details_auto ds w DIRED_SHOW_ALL) - size_separators (details_auto ds w DIRED_SHOW_ALL)
   = (if shown (details_auto ds w DIRED_SHOW_ALL) DIRED_SHOW_SIZE then sizelen ds else 0)
   + (if shown (details_auto ds w DIRED_SHOW_ALL) DIRED_SHOW_DATE then datelen ds + 2 else 0)
   + (if shown (details_auto ds w DIRED_SHOW_ALL) DIRED_SHOW_MODE then modelen ds + 1 else 0)
   + (if shown (details_auto ds w DIRED_SHOW_ALL) DIRED_SHOW_UID then uidlen ds + 1 else 0)
   + (if shown (details_auto ds w DIRED_SHOW_ALL) DIRED_SHOW_GID then gidlen ds + 1 else 0)
   + (if shown (details_auto ds w DIRED_SHOW_ALL) DIRED_SHOW_LINKS then linklen ds + 1 else 0)"
  unfolding printed_cost_def size_separators_def details_auto_shown(7) by simp




text \<open>
  C7, as amended. In the automatic detail mode the columns are tried in the order size, date,
  mode, owner, group, link count; each is shown exactly when the budget that remains after
  subtracting it (and every column tried before it, shown or not) is not negative. The owner
  and the group column are dropped without being subtracted when \<^verbatim>\<open>nflag\<close> is 2 (the
  setting that the source calls hidden). The block count is never shown.
\<close>

theorem details_layout_auto_priority:
  "details_flag ds = DIRED_DETAILS_AUTO \<Longrightarrow>
     (let w0 = width - clamp_int (namelen ds) 16 40;
          w1 = w0 - (sizelen ds + 2);
          w2 = w1 - (datelen ds + 2);
          w3 = w2 - (modelen ds + 1);
          w4 = w3 - (uidlen ds + 1);
          w5 = w4 - (gidlen ds + 1);
          w6 = (if nflag ds = 2 then w3 else w5) - (linklen ds + 1);
          m = details_layout ds width
      in shown m DIRED_SHOW_SIZE = (0 \<le> w1)
       \<and> shown m DIRED_SHOW_DATE = (0 \<le> w2)
       \<and> shown m DIRED_SHOW_MODE = (0 \<le> w3)
       \<and> shown m DIRED_SHOW_UID = (nflag ds \<noteq> 2 \<and> 0 \<le> w4)
       \<and> shown m DIRED_SHOW_GID = (nflag ds \<noteq> 2 \<and> 0 \<le> w5)
       \<and> shown m DIRED_SHOW_LINKS = (0 \<le> w6)
       \<and> shown m DIRED_SHOW_BLOCKS = False)"
proof -
  assume a: "details_flag ds = DIRED_DETAILS_AUTO"
  show ?thesis unfolding Let_def details_layout_auto [OF a] details_auto_shown by auto
qed

theorem details_layout_auto_priority_witness:
  "details_flag example_state = DIRED_DETAILS_AUTO
   \<and> shown (details_layout example_state 40) DIRED_SHOW_SIZE
   \<and> shown (details_layout example_state 40) DIRED_SHOW_DATE
   \<and> \<not> shown (details_layout example_state 40) DIRED_SHOW_MODE
   \<and> \<not> shown (details_layout example_state 40) DIRED_SHOW_UID
   \<and> \<not> shown (details_layout example_state 40) DIRED_SHOW_GID
   \<and> \<not> shown (details_layout example_state 40) DIRED_SHOW_LINKS
   \<and> \<not> shown (details_layout example_state 40) DIRED_SHOW_BLOCKS"
  using details_layout_auto_priority [OF example_state_auto, of 40]
  by (simp add: example_state_auto example_state_lens clamp_int_def Let_def)

text \<open>
  The claim as stated fails for the numeric setting: with \<^verbatim>\<open>nflag = 1\<close> the owner and the group
  are printed as numbers although the user database has a name, and both columns are shown at
  display width 80.
\<close>

theorem details_layout_numeric_counterexample:
  "details_flag (example_state\<lparr>nflag := 1\<rparr>) = DIRED_DETAILS_AUTO
   \<and> getpwuid example_host 1000 = Some ''alice''
   \<and> format_uid example_host 32 (nflag (example_state\<lparr>nflag := 1\<rparr>)) 1000 = (''1000'', 4)
   \<and> format_gid example_host 32 (nflag (example_state\<lparr>nflag := 1\<rparr>)) 1000 = (''1000'', 4)
   \<and> shown (details_layout (example_state\<lparr>nflag := 1\<rparr>) 80) DIRED_SHOW_UID
   \<and> shown (details_layout (example_state\<lparr>nflag := 1\<rparr>) 80) DIRED_SHOW_GID"
proof -
  have a: "details_flag (example_state\<lparr>nflag := 1\<rparr>) = DIRED_DETAILS_AUTO"
    by (simp add: example_state_def DIRED_DETAILS_AUTO_def)
  have f: "format_uid example_host 32 1 1000 = (''1000'', 4)"
          "format_gid example_host 32 1 1000 = (''1000'', 4)"
    by (simp_all add: format_uid_def format_gid_def snprintf_out_def show_int_def
        digits_of_nat.simps digit_char_def)
  have s: "shown (details_layout (example_state\<lparr>nflag := 1\<rparr>) 80) DIRED_SHOW_UID"
          "shown (details_layout (example_state\<lparr>nflag := 1\<rparr>) 80) DIRED_SHOW_GID"
    unfolding details_layout_auto [OF a] details_auto_shown
    by (simp_all add: example_state_lens clamp_int_def)
  show ?thesis using a f s by (simp add: example_host_def)
qed

text \<open>
  C10. In the automatic detail mode with non-negative cached widths, once a column is dropped
  because the budget went negative, every later column of the order size, date, mode, owner,
  group, link count is dropped as well. (For the owner and the group the premise excludes
  \<^verbatim>\<open>nflag = 2\<close>, where they are dropped without a width check.)
\<close>

theorem details_layout_drop_is_final:
  "details_flag ds = DIRED_DETAILS_AUTO \<Longrightarrow>
   0 \<le> datelen ds \<Longrightarrow> 0 \<le> modelen ds \<Longrightarrow> 0 \<le> uidlen ds \<Longrightarrow> 0 \<le> gidlen ds \<Longrightarrow>
   0 \<le> linklen ds \<Longrightarrow>
     (let m = details_layout ds width
      in (\<not> shown m DIRED_SHOW_SIZE \<longrightarrow>
            \<not> shown m DIRED_SHOW_DATE \<and> \<not> shown m DIRED_SHOW_MODE \<and> \<not> shown m DIRED_SHOW_UID
            \<and> \<not> shown m DIRED_SHOW_GID \<and> \<not> shown m DIRED_SHOW_LINKS)
       \<and> (\<not> shown m DIRED_SHOW_DATE \<longrightarrow>
            \<not> shown m DIRED_SHOW_MODE \<and> \<not> shown m DIRED_SHOW_UID
            \<and> \<not> shown m DIRED_SHOW_GID \<and> \<not> shown m DIRED_SHOW_LINKS)
       \<and> (\<not> shown m DIRED_SHOW_MODE \<longrightarrow>
            \<not> shown m DIRED_SHOW_UID \<and> \<not> shown m DIRED_SHOW_GID \<and> \<not> shown m DIRED_SHOW_LINKS)
       \<and> (nflag ds \<noteq> 2 \<and> \<not> shown m DIRED_SHOW_UID \<longrightarrow>
            \<not> shown m DIRED_SHOW_GID \<and> \<not> shown m DIRED_SHOW_LINKS)
       \<and> (nflag ds \<noteq> 2 \<and> \<not> shown m DIRED_SHOW_GID \<longrightarrow> \<not> shown m DIRED_SHOW_LINKS))"
proof -
  assume a: "details_flag ds = DIRED_DETAILS_AUTO"
    and n: "0 \<le> datelen ds" "0 \<le> modelen ds" "0 \<le> uidlen ds" "0 \<le> gidlen ds" "0 \<le> linklen ds"
  show ?thesis unfolding Let_def details_layout_auto [OF a] details_auto_shown using n by auto
qed

theorem details_layout_drop_is_final_witness:
  "details_flag example_state = DIRED_DETAILS_AUTO
   \<and> 0 \<le> datelen example_state \<and> 0 \<le> modelen example_state \<and> 0 \<le> uidlen example_state
   \<and> 0 \<le> gidlen example_state \<and> 0 \<le> linklen example_state
   \<and> shown (details_layout example_state 40) DIRED_SHOW_DATE
   \<and> \<not> shown (details_layout example_state 40) DIRED_SHOW_MODE
   \<and> \<not> shown (details_layout example_state 40) DIRED_SHOW_UID
   \<and> \<not> shown (details_layout example_state 40) DIRED_SHOW_GID
   \<and> \<not> shown (details_layout example_state 40) DIRED_SHOW_LINKS"
proof -
  have m: "\<not> shown (details_layout example_state 40) DIRED_SHOW_MODE"
          "shown (details_layout example_state 40) DIRED_SHOW_DATE"
    unfolding details_layout_auto [OF example_state_auto] details_auto_shown
    by (simp_all add: example_state_lens clamp_int_def)
  from details_layout_drop_is_final [OF example_state_auto, of 40] m
  show ?thesis by (simp add: example_state_auto example_state_lens Let_def)
qed

subsection \<open>The time format\<close>

lemmas tf_defs = TF_COMPACT_def TF_DOS_def TF_DOS_LONG_def TF_TOUCH_def TF_TOUCH_LONG_def
  TF_FULL_def TF_SECONDS_def TF_MAX_def

lemma time_format_of_token_spec:
  "strxcmp h = strxcmp_spec \<Longrightarrow> time_format_of_token h s = map_of time_format_tokens s"
  by (simp add: time_format_of_token_def strxcmp_spec_def time_format_tokens_def)

lemma token_format_range:
  "map_of time_format_tokens s = Some f \<Longrightarrow> 0 \<le> f \<and> f \<le> TF_MAX"
  by (auto simp add: time_format_tokens_def tf_defs split: if_splits)

text \<open>
  C9. With the literal comparison of the spec, the setter called with a string accepts exactly
  the eight tokens: for a token it returns \<^verbatim>\<open>VAR_NUMBER\<close> and the format becomes the one of
  the token (the modification mark is set when the format changes); for every other string it
  returns \<^verbatim>\<open>VAR_UNKNOWN\<close> and leaves the configuration and the mark as they were.
\<close>

theorem dired_time_format_set_value_tokens:
  "strxcmp h = strxcmp_spec \<Longrightarrow>
     dired_time_format_set_value h g m (Some s) fmt =
       (case map_of time_format_tokens s of
          None \<Rightarrow> (VAR_UNKNOWN, g, m)
        | Some f \<Rightarrow>
            (VAR_NUMBER, g\<lparr>dired_time_format := f\<rparr>, if dired_time_format g \<noteq> f then 1 else m))
   \<and> (s \<notin> fst ` set time_format_tokens \<longrightarrow>
        dired_time_format_set_value h g m (Some s) fmt = (VAR_UNKNOWN, g, m))"
proof -
  assume h: "strxcmp h = strxcmp_spec"
  have a: "dired_time_format_set_value h g m (Some s) fmt =
       (case map_of time_format_tokens s of
          None \<Rightarrow> (VAR_UNKNOWN, g, m)
        | Some f \<Rightarrow>
            (VAR_NUMBER, g\<lparr>dired_time_format := f\<rparr>, if dired_time_format g \<noteq> f then 1 else m))"
  proof (cases "map_of time_format_tokens s")
    case None
    then show ?thesis
      by (simp add: dired_time_format_set_value_def time_format_of_token_spec [OF h])
  next
    case (Some f)
    from token_format_range [OF Some] have r: "\<not> (f < 0 \<or> f > TF_MAX)" by simp
    have e: "dired_time_format g = f \<Longrightarrow> g\<lparr>dired_time_format := f\<rparr> = g" by simp
    show ?thesis using r e
      by (simp add: dired_time_format_set_value_def time_format_of_token_spec [OF h] Some)
  qed
  have b: "map_of time_format_tokens s = None" if "s \<notin> fst ` set time_format_tokens"
    using that by (simp add: map_of_eq_None_iff)
  show ?thesis using a b by simp
qed

theorem dired_time_format_set_value_tokens_witness:
  "strxcmp (example_host\<lparr>strxcmp := strxcmp_spec\<rparr>) = strxcmp_spec
   \<and> dired_time_format_set_value (example_host\<lparr>strxcmp := strxcmp_spec\<rparr>) example_globals 0
        (Some ''dos-long'') 0
      = (VAR_NUMBER, example_globals\<lparr>dired_time_format := TF_DOS_LONG\<rparr>, 1)
   \<and> ''DOS'' \<notin> fst ` set time_format_tokens
   \<and> dired_time_format_set_value (example_host\<lparr>strxcmp := strxcmp_spec\<rparr>) example_globals 0
        (Some ''DOS'') 3
      = (VAR_UNKNOWN, example_globals, 0)"
proof -
  have h: "strxcmp (example_host\<lparr>strxcmp := strxcmp_spec\<rparr>) = strxcmp_spec" by simp
  have n: "''DOS'' \<notin> fst ` set time_format_tokens" by (simp add: time_format_tokens_def)
  from dired_time_format_set_value_tokens [OF h, of example_globals 0 "''dos-long''" 0]
       dired_time_format_set_value_tokens [OF h, of example_globals 0 "''DOS''" 3] n
  show ?thesis
    by (simp add: time_format_tokens_def example_globals_def tf_defs)
qed


subsection \<open>The header\<close>

lemma sep_parts_append:
  "sep_parts seq (xs @ ys) = sep_parts seq xs @ sep_parts (next_seq seq xs) ys"
  by (induction xs arbitrary: seq) (simp_all add: next_seq_def)

lemma next_seq_append: "next_seq seq (xs @ ys) = next_seq (next_seq seq xs) ys"
  by (simp add: next_seq_def)

lemma header_count_written:
  "header_count (written b t, seq) n sg pl =
     (written b (t @ styled (cur_style b) (sep_parts seq (count_part n sg pl))),
      next_seq seq (count_part n sg pl))"
  by (simp add: header_count_def eb_printf_written count_part_def next_seq_def)

lemma header_bytes_written:
  "(if c then (fst (eb_printf (written b t) ([seq] @ '' '' @ x)), CHR '','') else (written b t, seq))
     = (written b (t @ styled (cur_style b) (sep_parts seq (if c then [x] else []))),
        next_seq seq (if c then [x] else []))"
  by (simp add: eb_printf_written next_seq_def)

lemma header_empty_written:
  "(if c then fst (eb_printf (written b t) ([seq] @ '' empty'')) else written b t)
     = written b (t @ styled (cur_style b) (sep_parts seq (if c then [''empty''] else [])))"
  by (simp add: eb_printf_written)

lemma dired_header_written:
  "dired_header h ds b = written (b\<lparr>cur_style := DIRED_STYLE_HEADER\<rparr>) (header_text h ds)"
  unfolding dired_header_def header_text_def header_parts_def Let_def eb_puts_written
    eb_putc_written fst_conv snd_conv written_written written_style header_count_written
    header_bytes_written header_empty_written sep_parts_append next_seq_append
  by (simp del: sep_parts.simps)

subsection \<open>The update\<close>

lemma bit_or_pow2:
  "k < 32 \<Longrightarrow> bit (x OR 2 ^ k) n = (bit x n \<or> n = k)" for x :: cint
  by (auto simp add: bit_or_iff bit_exp_iff dest: bit_imp_le_length)

lemma test_update:
  "(f AND DIRED_UPDATE_SORT \<noteq> 0) = bit f 0"
  "(f AND DIRED_UPDATE_FILTER \<noteq> 0) = bit f 1"
  "(f AND DIRED_UPDATE_COLUMNS \<noteq> 0) = bit f 2"
  "(f AND DIRED_UPDATE_REBUILD \<noteq> 0) = bit f 3"
  for f :: cint
  using and_pow2_test [of f 0] and_pow2_test [of f 1] and_pow2_test [of f 2] and_pow2_test [of f 3]
  by (simp_all add: DIRED_UPDATE_SORT_def DIRED_UPDATE_FILTER_def DIRED_UPDATE_COLUMNS_def
      DIRED_UPDATE_REBUILD_def)

lemma test_rebuild_clear: "(f AND DIRED_UPDATE_REBUILD = 0) = (\<not> bit f 3)" for f :: cint
  using test_update(4) [of f] by auto

lemma bit_or_update:
  "bit (f OR DIRED_UPDATE_SORT) n = (bit f n \<or> n = 0)"
  "bit (f OR DIRED_UPDATE_FILTER) n = (bit f n \<or> n = 1)"
  "bit (f OR DIRED_UPDATE_COLUMNS) n = (bit f n \<or> n = 2)"
  "bit (f OR DIRED_UPDATE_REBUILD) n = (bit f n \<or> n = 3)"
  for f :: cint
  using bit_or_pow2 [of 0 f n] bit_or_pow2 [of 1 f n] bit_or_pow2 [of 2 f n] bit_or_pow2 [of 3 f n]
  by (simp_all add: DIRED_UPDATE_SORT_def DIRED_UPDATE_FILTER_def DIRED_UPDATE_COLUMNS_def
      DIRED_UPDATE_REBUILD_def)

text \<open>What the filter leaves as it is.\<close>

lemma filter_loop_fields:
  "filter_loop g xs ds = (xs', ds') \<Longrightarrow>
     time_format ds' = time_format ds \<and> nflag ds' = nflag ds \<and> hflag ds' = hflag ds
   \<and> details_flag ds' = details_flag ds \<and> last_details_flag ds' = last_details_flag ds
   \<and> blocksize ds' = blocksize ds \<and> path ds' = path ds \<and> sort_mode ds' = sort_mode ds"
proof (induction xs arbitrary: ds xs' ds')
  case Nil
  then show ?case by simp
next
  case (Cons it rest)
  obtain it1 ds1 where s: "filter_step g it ds = (it1, ds1)" by (cases "filter_step g it ds")
  obtain r1 ds2 where l: "filter_loop g rest ds1 = (r1, ds2)" by (cases "filter_loop g rest ds1")
  from Cons.prems s l have e: "ds' = ds2" by simp
  note ih = Cons.IH [OF l]
  from s show ?case unfolding e using ih
    by (auto simp: filter_step_def Let_def split: if_splits)
qed

lemma dired_filter_files_fields:
  "time_format (dired_filter_files g ds) = time_format ds"
  "nflag (dired_filter_files g ds) = nflag ds"
  "hflag (dired_filter_files g ds) = hflag ds"
  "details_flag (dired_filter_files g ds) = details_flag ds"
  "last_details_flag (dired_filter_files g ds) = last_details_flag ds"
  "blocksize (dired_filter_files g ds) = blocksize ds"
  "path (dired_filter_files g ds) = path ds"
  "sort_mode (dired_filter_files g ds) = sort_mode ds"
proof -
  let ?ds0 = "ds\<lparr>show_dot_files := dired_show_dot_files g,
                    show_ds_store := dired_show_ds_store g,
                    total_bytes := 0, ndirs := 0, nfiles := 0,
                    ndirs_hidden := 0, nfiles_hidden := 0\<rparr>"
  obtain its ds1 where l: "filter_loop g (items ds) ?ds0 = (its, ds1)"
    by (cases "filter_loop g (items ds) ?ds0")
  have r: "dired_filter_files g ds = ds1\<lparr>items := its\<rparr>"
    using l by (simp add: dired_filter_files_def)
  from filter_loop_fields [OF l]
  show "time_format (dired_filter_files g ds) = time_format ds"
  "nflag (dired_filter_files g ds) = nflag ds"
  "hflag (dired_filter_files g ds) = hflag ds"
  "details_flag (dired_filter_files g ds) = details_flag ds"
  "last_details_flag (dired_filter_files g ds) = last_details_flag ds"
  "blocksize (dired_filter_files g ds) = blocksize ds"
  "path (dired_filter_files g ds) = path ds"
  "sort_mode (dired_filter_files g ds) = sort_mode ds"
    unfolding r by simp_all
qed

text \<open>The flags after each of the three blocks, bit by bit.\<close>

lemma stage_sort_flags:
  "bit (snd (stage_sort h g ds flags)) n =
     (bit flags n \<or> (n = 0 \<or> n = 3) \<and> (bit flags 0 \<or> sort_mode ds \<noteq> dired_sort_mode g))"
  unfolding stage_sort_def Let_def test_update
  by (auto simp add: bit_or_update)

lemma stage_sort_fields:
  "show_dot_files (fst (stage_sort h g ds flags)) = show_dot_files ds"
  "show_ds_store (fst (stage_sort h g ds flags)) = show_ds_store ds"
  "time_format (fst (stage_sort h g ds flags)) = time_format ds"
  "nflag (fst (stage_sort h g ds flags)) = nflag ds"
  "hflag (fst (stage_sort h g ds flags)) = hflag ds"
  "details_flag (fst (stage_sort h g ds flags)) = details_flag ds"
  "last_details_flag (fst (stage_sort h g ds flags)) = last_details_flag ds"
  "blocksize (fst (stage_sort h g ds flags)) = blocksize ds"
  "path (fst (stage_sort h g ds flags)) = path ds"
  unfolding stage_sort_def Let_def by simp_all

lemma stage_filter_flags:
  "bit (snd (stage_filter g ds flags)) n =
     (bit flags n \<or> (n = 1 \<or> n = 3) \<and> (bit flags 1 \<or> show_dot_files ds \<noteq> dired_show_dot_files g
                 \<or> show_ds_store ds \<noteq> dired_show_ds_store g))"
  unfolding stage_filter_def Let_def test_update
  by (auto simp add: bit_or_update)

lemma stage_filter_fields:
  "time_format (fst (stage_filter g ds flags)) = time_format ds"
  "nflag (fst (stage_filter g ds flags)) = nflag ds"
  "hflag (fst (stage_filter g ds flags)) = hflag ds"
  "details_flag (fst (stage_filter g ds flags)) = details_flag ds"
  "last_details_flag (fst (stage_filter g ds flags)) = last_details_flag ds"
  "blocksize (fst (stage_filter g ds flags)) = blocksize ds"
  "path (fst (stage_filter g ds flags)) = path ds"
  unfolding stage_filter_def Let_def by (simp_all add: dired_filter_files_fields)

text \<open>The items after the filter block: the hidden flags are set again when the block runs.\<close>

lemma stage_filter_items:
  "items (fst (stage_filter g ds flags)) =
     (if snd (stage_filter g ds flags) AND DIRED_UPDATE_FILTER \<noteq> 0
      then map (\<lambda>it. it\<lparr>opaque := (opaque it)\<lparr>hidden := filter_hidden g (str it)\<rparr>\<rparr>) (items ds)
      else items ds)"
proof -
  have "bit (flags OR DIRED_UPDATE_REBUILD) 1 = bit flags 1" for flags :: cint
    by (simp add: bit_or_update)
  then show ?thesis
    unfolding stage_filter_def Let_def test_update
    by (auto simp add: bit_or_update dired_filter_files_items)
qed

lemma stage_columns_flags:
  "bit (fst (stage_columns h g ds flags)) n =
     (bit flags n \<or> (n = 2 \<or> n = 3) \<and> (bit flags 2 \<or> time_format ds \<noteq> dired_time_format g
                 \<or> nflag ds \<noteq> dired_nflag g \<or> hflag ds \<noteq> dired_hflag g
                 \<or> details_flag ds \<noteq> last_details_flag ds))"
  unfolding stage_columns_def Let_def test_update
  by (auto simp add: bit_or_update)

lemma update_stages_flags:
  "bit (fst (update_stages h g ds flags)) n =
     (bit flags n
      \<or> (n = 0 \<or> n = 3) \<and> (bit flags 0 \<or> sort_mode ds \<noteq> dired_sort_mode g)
      \<or> (n = 1 \<or> n = 3) \<and> (bit flags 1 \<or> show_dot_files ds \<noteq> dired_show_dot_files g
                 \<or> show_ds_store ds \<noteq> dired_show_ds_store g)
      \<or> (n = 2 \<or> n = 3) \<and> (bit flags 2 \<or> time_format ds \<noteq> dired_time_format g
                 \<or> nflag ds \<noteq> dired_nflag g \<or> hflag ds \<noteq> dired_hflag g
                 \<or> details_flag ds \<noteq> last_details_flag ds))"
  unfolding update_stages_def Let_def
  by (simp add: stage_columns_flags stage_filter_flags stage_sort_flags stage_sort_fields
      stage_filter_fields)

lemma update_stages_clean:
  "\<not> bit flags 0 \<Longrightarrow> \<not> bit flags 1 \<Longrightarrow> \<not> bit flags 2 \<Longrightarrow> \<not> config_changed g ds \<Longrightarrow>
     update_stages h g ds flags = (flags, Some (g, ds))"
  unfolding update_stages_def stage_sort_def stage_filter_def stage_columns_def Let_def
    test_update config_changed_def
  by simp

text \<open>
  The measurement of the columns: it has a result when the block size is positive and every
  time converts; it changes nothing but the widths; the widths it leaves are never negative.
\<close>

lemma raise_to_ge: "cur \<le> raise_to cur len"
  by (simp add: raise_to_def)

lemma item_blocks_runs: "0 < blocksize ds \<Longrightarrow> \<exists>n. item_blocks ds dip = Some n"
  by (simp add: item_blocks_def Let_def)

lemma format_date_runs:
  "localtime h t \<noteq> None \<Longrightarrow> \<exists>d. format_date h g sz t tf = Some d"
  by (auto simp: format_date_def)

lemma columns_step_runs:
  "0 < blocksize ds \<Longrightarrow> localtime h (mtime (opaque it)) \<noteq> None \<Longrightarrow>
     \<exists>ds'. columns_step h g it ds = Some ds'"
  using item_blocks_runs [of "ds\<lparr>namelen := raise_to (namelen ds) (int (length (name (opaque it))))\<rparr>" "opaque it"]
    format_date_runs [of h "mtime (opaque it)" g 32 "dired_time_format g"]
  by (auto simp: columns_step_def Let_def)

lemma columns_step_keeps:
  "columns_step h g it ds = Some ds' \<Longrightarrow>
     items ds' = items ds \<and> blocksize ds' = blocksize ds \<and> path ds' = path ds
   \<and> details_flag ds' = details_flag ds"
  by (auto simp: columns_step_def Let_def split: if_splits option.splits)

lemma columns_step_nonneg:
  "columns_step h g it ds = Some ds' \<Longrightarrow>
   0 \<le> sizelen ds \<and> 0 \<le> datelen ds \<and> 0 \<le> modelen ds \<and> 0 \<le> uidlen ds \<and> 0 \<le> gidlen ds
   \<and> 0 \<le> linklen ds \<and> 0 \<le> blockslen ds \<and> 0 \<le> namelen ds \<Longrightarrow>
   0 \<le> sizelen ds' \<and> 0 \<le> datelen ds' \<and> 0 \<le> modelen ds' \<and> 0 \<le> uidlen ds' \<and> 0 \<le> gidlen ds'
   \<and> 0 \<le> linklen ds' \<and> 0 \<le> blockslen ds' \<and> 0 \<le> namelen ds'"
  by (auto simp: columns_step_def Let_def split: if_splits option.splits
      intro: order_trans [OF _ raise_to_ge])

lemma columns_loop_runs:
  "0 < blocksize ds \<Longrightarrow> list_all (\<lambda>it. localtime h (mtime (opaque it)) \<noteq> None) xs \<Longrightarrow>
     \<exists>ds'. columns_loop h g xs ds = Some ds'"
proof (induction xs arbitrary: ds)
  case Nil
  show ?case by simp
next
  case (Cons it rest)
  from Cons.prems columns_step_runs [of ds h it g]
  obtain ds1 where s: "columns_step h g it ds = Some ds1" by auto
  from columns_step_keeps [OF s] Cons.prems have "0 < blocksize ds1" by simp
  from Cons.IH [OF this] Cons.prems show ?case by (simp add: s)
qed

lemma columns_loop_keeps:
  "columns_loop h g xs ds = Some ds' \<Longrightarrow>
     items ds' = items ds \<and> blocksize ds' = blocksize ds \<and> path ds' = path ds
   \<and> details_flag ds' = details_flag ds"
proof (induction xs arbitrary: ds)
  case Nil
  then show ?case by simp
next
  case (Cons it rest)
  from Cons.prems obtain ds1 where s: "columns_step h g it ds = Some ds1"
    and l: "columns_loop h g rest ds1 = Some ds'"
    by (auto split: option.splits)
  from Cons.IH [OF l] columns_step_keeps [OF s] show ?case by simp
qed

lemma columns_loop_nonneg:
  "columns_loop h g xs ds = Some ds' \<Longrightarrow>
   0 \<le> sizelen ds \<and> 0 \<le> datelen ds \<and> 0 \<le> modelen ds \<and> 0 \<le> uidlen ds \<and> 0 \<le> gidlen ds
   \<and> 0 \<le> linklen ds \<and> 0 \<le> blockslen ds \<and> 0 \<le> namelen ds \<Longrightarrow>
   0 \<le> sizelen ds' \<and> 0 \<le> datelen ds' \<and> 0 \<le> modelen ds' \<and> 0 \<le> uidlen ds' \<and> 0 \<le> gidlen ds'
   \<and> 0 \<le> linklen ds' \<and> 0 \<le> blockslen ds' \<and> 0 \<le> namelen ds'"
proof (induction xs arbitrary: ds)
  case Nil
  then show ?case by simp
next
  case (Cons it rest)
  from Cons.prems(1) obtain ds1 where s: "columns_step h g it ds = Some ds1"
    and l: "columns_loop h g rest ds1 = Some ds'"
    by (auto split: option.splits)
  from Cons.IH [OF l columns_step_nonneg [OF s Cons.prems(2)]] show ?case .
qed

lemma dired_compute_columns_nonneg:
  "dired_compute_columns h g ds = Some (g', ds') \<Longrightarrow>
   0 \<le> sizelen ds' \<and> 0 \<le> datelen ds' \<and> 0 \<le> modelen ds' \<and> 0 \<le> uidlen ds' \<and> 0 \<le> gidlen ds'
   \<and> 0 \<le> linklen ds' \<and> 0 \<le> blockslen ds' \<and> 0 \<le> namelen ds'"
  unfolding dired_compute_columns_def Let_def
  by (auto dest!: columns_loop_nonneg)

lemma dired_compute_columns_keeps:
  "dired_compute_columns h g ds = Some (g', ds') \<Longrightarrow>
     items ds' = items ds \<and> blocksize ds' = blocksize ds \<and> path ds' = path ds
   \<and> details_flag ds' = details_flag ds"
  unfolding dired_compute_columns_def Let_def
  by (auto dest!: columns_loop_keeps)

lemma dired_compute_columns_runs:
  "0 < blocksize ds \<Longrightarrow> list_all (\<lambda>it. localtime h (mtime (opaque it)) \<noteq> None) (items ds) \<Longrightarrow>
     \<exists>r. dired_compute_columns h g ds = Some r"
  unfolding dired_compute_columns_def Let_def
  using columns_loop_runs [of "ds\<lparr>time_format := dired_time_format g,
                  hflag := dired_hflag g,
                  nflag := dired_nflag g,
                  blockslen := 0, modelen := 0, linklen := 0,
                  uidlen := 0, gidlen := 0,
                  sizelen := 0, datelen := 0, namelen := 0\<rparr>" h "items ds" "g\<lparr>dired_curtime := time_now h\<rparr>"]
  by auto

text \<open>The three blocks together: when they return, and what they leave in the state.\<close>

lemma update_stages_result:
  assumes "snd (update_stages h g ds flags) = Some (g', ds')"
  shows "items ds' =
           (if fst (update_stages h g ds flags) AND DIRED_UPDATE_FILTER \<noteq> 0
            then map (\<lambda>it. it\<lparr>opaque := (opaque it)\<lparr>hidden := filter_hidden g (str it)\<rparr>\<rparr>)
                   (listed_items h g ds flags)
            else listed_items h g ds flags)
         \<and> blocksize ds' = blocksize ds \<and> path ds' = path ds
         \<and> details_flag ds' = details_flag ds"
proof -
  let ?so = "stage_sort h g ds flags"
  let ?fi = "stage_filter g (fst ?so) (snd ?so)"
  let ?co = "stage_columns h g (fst ?fi) (snd ?fi)"
  have u: "update_stages h g ds flags = ?co" by (simp add: update_stages_def Let_def)
  have b1: "(fst ?co AND DIRED_UPDATE_FILTER \<noteq> 0) = (snd ?fi AND DIRED_UPDATE_FILTER \<noteq> 0)"
    unfolding test_update by (simp add: stage_columns_flags)
  have i: "items (fst ?fi) =
           (if fst ?co AND DIRED_UPDATE_FILTER \<noteq> 0
            then map (\<lambda>it. it\<lparr>opaque := (opaque it)\<lparr>hidden := filter_hidden g (str it)\<rparr>\<rparr>)
                   (listed_items h g ds flags)
            else listed_items h g ds flags)"
    unfolding b1 listed_items_def by (rule stage_filter_items)
  have k: "blocksize (fst ?fi) = blocksize ds \<and> path (fst ?fi) = path ds
           \<and> details_flag (fst ?fi) = details_flag ds"
    by (simp add: stage_filter_fields stage_sort_fields)
  from assms have c: "snd ?co = Some (g', ds')" by (simp add: u)
  show ?thesis
  proof (cases "snd ?fi AND DIRED_UPDATE_COLUMNS \<noteq> 0
                \<or> time_format (fst ?fi) \<noteq> dired_time_format g
                \<or> nflag (fst ?fi) \<noteq> dired_nflag g \<or> hflag (fst ?fi) \<noteq> dired_hflag g
                \<or> details_flag (fst ?fi) \<noteq> last_details_flag (fst ?fi)")
    case True
    then have "snd ?co = dired_compute_columns h g (fst ?fi)"
      unfolding stage_columns_def [of h g "fst ?fi" "snd ?fi"] Let_def test_update
      by (auto simp add: bit_or_update)
    with c have "dired_compute_columns h g (fst ?fi) = Some (g', ds')" by simp
    from dired_compute_columns_keeps [OF this] i k show ?thesis unfolding u by simp
  next
    case False
    then have e: "snd ?co = Some (g, fst ?fi)"
      unfolding stage_columns_def [of h g "fst ?fi" "snd ?fi"] Let_def test_update
      by (auto simp add: bit_or_update)
    from c [unfolded e] have "ds' = fst ?fi" by auto
    with i k show ?thesis unfolding u by simp
  qed
qed

lemma update_stages_runs:
  assumes "runs_through h g ds flags"
  shows "\<exists>r. snd (update_stages h g ds flags) = Some r"
proof -
  let ?so = "stage_sort h g ds flags"
  let ?fi = "stage_filter g (fst ?so) (snd ?so)"
  let ?co = "stage_columns h g (fst ?fi) (snd ?fi)"
  have u: "update_stages h g ds flags = ?co" by (simp add: update_stages_def Let_def)
  from assms have p: "0 < blocksize (fst ?fi)"
    by (simp add: runs_through_def stage_filter_fields stage_sort_fields)
  from assms have "list_all (\<lambda>it. localtime h (mtime (opaque it)) \<noteq> None) (items (fst ?so))"
    by (simp add: runs_through_def listed_items_def)
  then have l: "list_all (\<lambda>it. localtime h (mtime (opaque it)) \<noteq> None) (items (fst ?fi))"
    unfolding stage_filter_items by (simp add: list.pred_map comp_def)
  from dired_compute_columns_runs [OF p l, of g]
  show ?thesis unfolding u stage_columns_def [of h g "fst ?fi" "snd ?fi"] Let_def
    by auto
qed

text \<open>The rows have a text when the block size is positive and every time converts.\<close>

lemma row_text_runs:
  "0 < blocksize ds \<Longrightarrow> localtime h (mtime dip) \<noteq> None \<Longrightarrow> \<exists>t. row_text h g ds dip = Some t"
  using item_blocks_runs [of ds dip]
    format_date_runs [of h "mtime dip" g "MAX_FILENAME_SIZE h" "dired_time_format g"]
  by (auto simp: row_text_def row_cells_def)

lemma rows_text_runs:
  "0 < blocksize ds \<Longrightarrow> list_all (\<lambda>it. localtime h (mtime (opaque it)) \<noteq> None) xs \<Longrightarrow>
     \<exists>t. rows_text h g ds xs = Some t"
proof (induction xs)
  case Nil
  show ?case by simp
next
  case (Cons it rest)
  from Cons.prems row_text_runs [of ds h "opaque it" g]
  obtain t where t: "row_text h g ds (opaque it) = Some t" by auto
  from Cons.IH Cons.prems obtain u where u: "rows_text h g ds rest = Some u" by auto
  show ?case by (simp add: t u)
qed

text \<open>
  The rebuild: the text of the buffer afterwards is the listing of the state with the new
  layout, whatever the buffer held before, and the rebuild has a result exactly when the
  listing has a text.
\<close>

lemma layout_state_fields:
  "items (layout_state ds w ww) = items ds"
  "blocksize (layout_state ds w ww) = blocksize ds"
  "path (layout_state ds w ww) = path ds"
  "details_mask (layout_state ds w ww) = details_layout ds w"
  by (simp_all add: layout_state_def Let_def details_layout_def details_auto_def)

lemma dired_rebuild_text:
  "map_option (\<lambda>r. b_text (fst (snd r))) (dired_rebuild h g ds b s w ww top_line cur)
     = listing_text h g (layout_state ds w ww)"
proof -
  let ?ds = "layout_state ds w ww"
  let ?s = "map_option (\<lambda>e. e\<lparr>es_offset := 0, es_offset_top := 0\<rparr>) s"
  let ?b = "written ((eb_clear b)\<lparr>cur_style := DIRED_STYLE_NORMAL\<rparr>) (header_text h ?ds)"
  have hb: "(dired_header h ?ds (eb_clear b))\<lparr>cur_style := DIRED_STYLE_NORMAL\<rparr> = ?b"
    by (simp add: dired_header_written)
  have n: "cur_style ?b = DIRED_STYLE_NORMAL" by simp
  have t: "b_text (written ?b t) = header_text h ?ds @ t" for t
    by (simp add: eb_clear_def)
  have "map_option (\<lambda>r. b_text (fst (snd r))) (dired_rebuild h g ds b s w ww top_line cur)
          = map_option b_text
              (map_option (\<lambda>r. fst (snd (snd r))) (render_loop h g cur (items ?ds) ?ds ?b ?s))"
    unfolding dired_rebuild_def Let_def hb
    by (simp add: option.map_comp comp_def split: option.split)
  also have "\<dots> = map_option b_text (map_option (written ?b) (rows_text h g ?ds (items ?ds)))"
    unfolding render_loop_written [OF n] ..
  also have "\<dots> = listing_text h g ?ds"
    unfolding listing_text_def by (simp add: option.map_comp comp_def eb_clear_def)
  finally show ?thesis .
qed

lemma dired_rebuild_modified:
  "dired_rebuild h g ds b s w ww top_line cur = Some r \<Longrightarrow> modified (fst (snd r)) = 0"
  by (auto simp: dired_rebuild_def Let_def split: option.splits)

lemma dired_update_buffer_rebuild:
  "snd (update_stages h g ds flags) = Some (g', ds') \<Longrightarrow>
   fst (update_stages h g ds flags) AND DIRED_UPDATE_REBUILD \<noteq> 0 \<Longrightarrow>
     dired_update_buffer h g (Some ds) b s flags =
       map_option (\<lambda>r. (g', Some (fst r), fst (snd r), snd (snd r)))
         (dired_rebuild h g' ds' b s (display_width h s) (window_width s)
            (case s of Some e \<Rightarrow> fst (eb_get_pos h b (es_offset_top e)) | None \<Rightarrow> 0)
            (map_option addr (case s of Some e \<Rightarrow> dired_get_cur_item h ds b e | None \<Rightarrow> None)))"
  by (simp add: dired_update_buffer_def Let_def)

lemma dired_update_buffer_clean:
  "flags AND DIRED_UPDATE_SORT = 0 \<Longrightarrow> flags AND DIRED_UPDATE_FILTER = 0 \<Longrightarrow>
   flags AND DIRED_UPDATE_COLUMNS = 0 \<Longrightarrow> flags AND DIRED_UPDATE_REBUILD = 0 \<Longrightarrow>
   \<not> config_changed g ds \<Longrightarrow>
     dired_update_buffer h g (Some ds) b s flags = Some (g, Some ds, b, s)"
proof -
  assume a: "flags AND DIRED_UPDATE_SORT = 0" "flags AND DIRED_UPDATE_FILTER = 0"
    "flags AND DIRED_UPDATE_COLUMNS = 0" "flags AND DIRED_UPDATE_REBUILD = 0"
    and c: "\<not> config_changed g ds"
  from a have b: "\<not> bit flags 0" "\<not> bit flags 1" "\<not> bit flags 2"
    using test_update(1) [of flags] test_update(2) [of flags] test_update(3) [of flags] by auto
  from update_stages_clean [OF b c] a(4) show ?thesis
    by (simp add: dired_update_buffer_def Let_def)
qed

text \<open>
  When the rebuild bit is set and the update runs through, the call returns and the buffer holds
  the listing of the state that the three blocks have left, laid out for the window.
\<close>

lemma dired_update_buffer_regenerates:
  assumes f: "fst (update_stages h g ds flags) AND DIRED_UPDATE_REBUILD \<noteq> 0"
    and r: "runs_through h g ds flags"
  shows "\<exists>g' ds' ds'' b' s'.
            snd (update_stages h g ds flags) = Some (g', ds')
          \<and> dired_update_buffer h g (Some ds) b s flags = Some (g', Some ds'', b', s')
          \<and> listing_text h g' (layout_state ds' (display_width h s) (window_width s))
              = Some (b_text b')
          \<and> modified b' = 0
          \<and> path ds' = path ds
          \<and> items ds' =
              (if fst (update_stages h g ds flags) AND DIRED_UPDATE_FILTER \<noteq> 0
               then map (\<lambda>it. it\<lparr>opaque := (opaque it)\<lparr>hidden := filter_hidden g (str it)\<rparr>\<rparr>)
                      (listed_items h g ds flags)
               else listed_items h g ds flags)"
proof -
  from update_stages_runs [OF r] obtain g' ds'
    where st: "snd (update_stages h g ds flags) = Some (g', ds')" by auto
  note res = update_stages_result [OF st]
  let ?w = "display_width h s" and ?ww = "window_width s"
  let ?tl = "case s of Some e \<Rightarrow> fst (eb_get_pos h b (es_offset_top e)) | None \<Rightarrow> 0"
  let ?cur = "map_option addr (case s of Some e \<Rightarrow> dired_get_cur_item h ds b e | None \<Rightarrow> None)"
  from r have "list_all (\<lambda>it. localtime h (mtime (opaque it)) \<noteq> None) (listed_items h g ds flags)"
    by (simp add: runs_through_def)
  then have l: "list_all (\<lambda>it. localtime h (mtime (opaque it)) \<noteq> None) (items ds')"
    using res by (simp add: list.pred_map comp_def)
  from r res have p: "0 < blocksize (layout_state ds' ?w ?ww)"
    by (simp add: runs_through_def layout_state_fields)
  from rows_text_runs [OF p, of h "items ds'" g'] l
  obtain t where t: "listing_text h g' (layout_state ds' ?w ?ww) = Some t"
    by (auto simp: listing_text_def layout_state_fields)
  with dired_rebuild_text [of h g' ds' b s ?w ?ww ?tl ?cur]
  obtain x where x: "dired_rebuild h g' ds' b s ?w ?ww ?tl ?cur = Some x" "b_text (fst (snd x)) = t"
    by (cases "dired_rebuild h g' ds' b s ?w ?ww ?tl ?cur") simp_all
  obtain ds'' b' s' where c: "x = (ds'', b', s')" by (cases x)
  have "dired_update_buffer h g (Some ds) b s flags = Some (g', Some ds'', b', s')"
    unfolding dired_update_buffer_rebuild [OF st f] x(1) c by simp
  moreover from t x(2) c
  have "listing_text h g' (layout_state ds' ?w ?ww) = Some (b_text b')" by simp
  moreover from dired_rebuild_modified [OF x(1)] c have "modified b' = 0" by simp
  ultimately show ?thesis using st res by blast
qed




end
